theory Spec2Isabelle
  imports Complex_Main "HOL-Library.Multiset" "HOL-Library.Sublist" "HOL-Library.AList"
    "HOL-Library.Log_Nat"
begin

section \<open>Strings\<close>

text \<open>
  JavaScript strings are modelled as \<^typ>\<open>string\<close>. Only the ASCII part of the
  white-space and case tables is modelled: \<open>trim\<close> removes TAB, LF, VT, FF, CR and
  SPACE, and \<open>toLowerCase\<close> maps \<open>A\<close>..\<open>Z\<close> to \<open>a\<close>..\<open>z\<close>.
\<close>

definition is_ws :: "char \<Rightarrow> bool" where
  "is_ws c \<longleftrightarrow> (of_char c :: nat) \<in> {9, 10, 11, 12, 13, 32}"

definition trimStart :: "string \<Rightarrow> string" where
  "trimStart s = dropWhile is_ws s"

definition trim :: "string \<Rightarrow> string" where
  "trim s = rev (dropWhile is_ws (rev (dropWhile is_ws s)))"

definition lower_char :: "char \<Rightarrow> char" where
  "lower_char c =
     (let n = (of_char c :: nat) in if 65 \<le> n \<and> n \<le> 90 then char_of (n + 32) else c)"

definition toLowerCase :: "string \<Rightarrow> string" where
  "toLowerCase s = map lower_char s"

definition is_digit :: "char \<Rightarrow> bool" where
  "is_digit c \<longleftrightarrow> 48 \<le> (of_char c :: nat) \<and> (of_char c :: nat) \<le> 57"

definition digits_value :: "string \<Rightarrow> nat" where
  "digits_value ds = foldl (\<lambda>acc c. 10 * acc + ((of_char c :: nat) - 48)) 0 ds"


section \<open>Numbers\<close>

text \<open>
  A JavaScript number is \<open>NaN\<close>, an infinity or a finite binary64 value, which is
  modelled by the rational it denotes. The sign of zero is not modelled.
\<close>

datatype jsnum = NaN | Fin rat | PInf | NInf

text \<open>
  Rounding of a rational to binary64, to nearest with ties to even: \<open>ilog2\<close> is the
  binary exponent of a positive rational, the spacing of the doubles around it is
  \<open>2 powi (e - 52)\<close> with the exponent \<open>e\<close> not below that of the subnormal range, and
  a result of magnitude \<open>2 powi 1024\<close> or more is an infinity.
\<close>

definition double_overflow :: rat where
  "double_overflow = 2 powi 1024"

definition rne :: "rat \<Rightarrow> int" where
  "rne x =
     (let f = \<lfloor>x\<rfloor>; d = x - of_int f
      in if d < 1 / 2 then f else if 1 / 2 < d then f + 1 else if even f then f else f + 1)"

definition ilog2 :: "rat \<Rightarrow> int" where
  "ilog2 x =
     (let (p, q) = quotient_of x; d = bitlen p - bitlen q
      in if 2 powi d \<le> x then d else d - 1)"

definition round64 :: "rat \<Rightarrow> jsnum" where
  "round64 r =
     (if r = 0 then Fin 0
      else
        (let a = \<bar>r\<bar>;
             e = max (ilog2 a) (- 1022);
             q = 2 powi (e - 52);
             v = of_int (rne (a / q)) * q
         in if double_overflow \<le> v then (if r < 0 then NInf else PInf)
            else Fin (if r < 0 then - v else v)))"

fun js_sign :: "jsnum \<Rightarrow> int" where
  "js_sign NaN = 0"
| "js_sign (Fin a) = (if a < 0 then -1 else if a = 0 then 0 else 1)"
| "js_sign PInf = 1"
| "js_sign NInf = -1"

definition inf_of_sign :: "int \<Rightarrow> jsnum" where
  "inf_of_sign s = (if s = 0 then NaN else if 0 < s then PInf else NInf)"

text \<open>The operators \<open>+\<close>, \<open>*\<close> and \<open>/\<close> on numbers: the exact result, rounded.\<close>

fun f64_add :: "jsnum \<Rightarrow> jsnum \<Rightarrow> jsnum" where
  "f64_add NaN y = NaN"
| "f64_add (Fin a) NaN = NaN"
| "f64_add (Fin a) (Fin b) = round64 (a + b)"
| "f64_add (Fin a) PInf = PInf"
| "f64_add (Fin a) NInf = NInf"
| "f64_add PInf NaN = NaN"
| "f64_add PInf (Fin b) = PInf"
| "f64_add PInf PInf = PInf"
| "f64_add PInf NInf = NaN"
| "f64_add NInf NaN = NaN"
| "f64_add NInf (Fin b) = NInf"
| "f64_add NInf PInf = NaN"
| "f64_add NInf NInf = NInf"

fun f64_mul :: "jsnum \<Rightarrow> jsnum \<Rightarrow> jsnum" where
  "f64_mul NaN y = NaN"
| "f64_mul (Fin a) NaN = NaN"
| "f64_mul PInf NaN = NaN"
| "f64_mul NInf NaN = NaN"
| "f64_mul (Fin a) (Fin b) = round64 (a * b)"
| "f64_mul x y = inf_of_sign (js_sign x * js_sign y)"

fun f64_div :: "jsnum \<Rightarrow> jsnum \<Rightarrow> jsnum" where
  "f64_div NaN y = NaN"
| "f64_div (Fin a) NaN = NaN"
| "f64_div PInf NaN = NaN"
| "f64_div NInf NaN = NaN"
| "f64_div (Fin a) (Fin b) = (if b = 0 then inf_of_sign (js_sign (Fin a)) else round64 (a / b))"
| "f64_div (Fin a) PInf = Fin 0"
| "f64_div (Fin a) NInf = Fin 0"
| "f64_div x (Fin b) = inf_of_sign (js_sign x * (if b < 0 then -1 else 1))"
| "f64_div x y = NaN"

text \<open>
  \<open>js_add\<close> adds without rounding: it is the sum of the decimal amounts of an order
  row, which the database computes exactly.
\<close>

fun js_add :: "jsnum \<Rightarrow> jsnum \<Rightarrow> jsnum" where
  "js_add NaN y = NaN"
| "js_add (Fin a) NaN = NaN"
| "js_add (Fin a) (Fin b) = Fin (a + b)"
| "js_add (Fin a) PInf = PInf"
| "js_add (Fin a) NInf = NInf"
| "js_add PInf NaN = NaN"
| "js_add PInf (Fin b) = PInf"
| "js_add PInf PInf = PInf"
| "js_add PInf NInf = NaN"
| "js_add NInf NaN = NaN"
| "js_add NInf (Fin b) = NInf"
| "js_add NInf PInf = NaN"
| "js_add NInf NInf = NInf"

definition isNaN :: "jsnum \<Rightarrow> bool" where
  "isNaN x \<longleftrightarrow> x = NaN"

text \<open>\<open>Math.round\<close>: the nearest integer, a tie going towards plus infinity.\<close>

fun Math_round :: "jsnum \<Rightarrow> jsnum" where
  "Math_round (Fin a) = Fin (of_int \<lfloor>a + 1 / 2\<rfloor>)"
| "Math_round x = x"

text \<open>
  \<open>x.toFixed(2)\<close>, as the number its decimal string denotes: the multiple of
  \<open>1/100\<close> nearest to the value of the double, a tie going away from zero.
\<close>

fun toFixed2 :: "jsnum \<Rightarrow> jsnum" where
  "toFixed2 (Fin a) =
     (if a < 0 then Fin (- (of_int \<lfloor>- a * 100 + 1 / 2\<rfloor> / 100))
      else Fin (of_int \<lfloor>a * 100 + 1 / 2\<rfloor> / 100))"
| "toFixed2 x = x"

text \<open>
  \<open>parseFloat\<close>: skip leading white space, read an optional sign, then the longest
  prefix that is \<open>Infinity\<close> or a decimal literal with an optional exponent; \<open>NaN\<close>
  when there is no such prefix, otherwise the double nearest to the decimal value.
\<close>

definition split_sign :: "string \<Rightarrow> bool \<times> string" where
  "split_sign t =
     (case t of
        [] \<Rightarrow> (False, [])
      | c # r \<Rightarrow> if c = CHR ''-'' then (True, r) else if c = CHR ''+'' then (False, r) else (False, t))"

definition exponent_part :: "string \<Rightarrow> int" where
  "exponent_part r =
     (case r of
        [] \<Rightarrow> 0
      | c # r' \<Rightarrow>
          if c = CHR ''e'' \<or> c = CHR ''E'' then
            (let (eneg, d) = split_sign r'; ds = takeWhile is_digit d
             in if ds = [] then 0
                else if eneg then - int (digits_value ds) else int (digits_value ds))
          else 0)"

definition scale10 :: "rat \<Rightarrow> int \<Rightarrow> rat" where
  "scale10 m e = (if 0 \<le> e then m * 10 ^ nat e else m / 10 ^ nat (- e))"

definition parseFloat :: "string \<Rightarrow> jsnum" where
  "parseFloat s =
     (let (neg, u) = split_sign (trimStart s)
      in if take 8 u = ''Infinity'' then (if neg then NInf else PInf)
         else
           (let ip = takeWhile is_digit u;
                r1 = dropWhile is_digit u;
                (fp, r2) = (case r1 of
                              [] \<Rightarrow> ([], [])
                            | c # r \<Rightarrow> if c = CHR ''.''
                                       then (takeWhile is_digit r, dropWhile is_digit r)
                                       else ([], r1))
            in if ip = [] \<and> fp = [] then NaN
               else
                 (let m = scale10 (of_nat (digits_value ip)
                                   + of_nat (digits_value fp) / 10 ^ length fp)
                                  (exponent_part r2)
                  in round64 (if neg then - m else m))))"


section \<open>Products and cart items\<close>

datatype ProductCategory = Snacks | Noodles | Cakes | Flowers | Beverages | Other

text \<open>The fields of \<open>Product\<close> carry the prefix \<open>p_\<close> (\<open>id\<close> is a constant of HOL).\<close>

record Product =
  p_id :: string
  p_name :: string
  p_description :: "string option"
  p_category :: ProductCategory
  p_price :: string
  p_image_url :: "string option"
  p_is_available :: bool
  p_available_from :: "string option"
  p_available_until :: "string option"
  p_is_fragile :: bool
  p_requires_custom_text :: bool
  p_created_at :: string
  p_updated_at :: string

text \<open>
  \<open>LegacyItem\<close> is \<open>Omit<CartItem, 'cartItemId'>\<close>, the shape of a line item in a
  version 0 snapshot; \<open>CartItem\<close> extends it by the key. Quantities are integers
  (every integer of magnitude up to \<open>2 ^ 53\<close> is a double).
\<close>

record LegacyItem =
  product :: Product
  quantity :: int
  custom_message :: "string option"
  is_fragile :: bool
  is_preorder :: bool

record CartItem = LegacyItem +
  cartItemId :: string

record AddItemPayload =
  payload_product :: Product
  payload_quantity :: "int option"
  payload_custom_message :: "string option"
  payload_is_preorder :: "bool option"

record CartState =
  items :: "CartItem list"


section \<open>Selectors and pure helpers of the cart store\<close>

text \<open>\<open>Array.prototype.reduce\<close> with an initial value is a left fold.\<close>

definition calcSubtotalForItems :: "CartItem list \<Rightarrow> jsnum" where
  "calcSubtotalForItems its =
     (let raw = foldl (\<lambda>sum item.
                   let unitPrice = parseFloat (p_price (product item));
                       safePrice = (if isNaN unitPrice then Fin 0 else unitPrice)
                   in f64_add sum (f64_mul safePrice (Fin (of_int (quantity item)))))
                 (Fin 0) its
      in f64_div (Math_round (f64_mul raw (Fin 100))) (Fin 100))"

definition selectCartSubtotal :: "CartState \<Rightarrow> jsnum" where
  "selectCartSubtotal state =
     (let raw = foldl (\<lambda>sum item.
                   let unitPrice = parseFloat (p_price (product item));
                       safePrice = (if isNaN unitPrice then Fin 0 else unitPrice)
                   in f64_add sum (f64_mul safePrice (Fin (of_int (quantity item)))))
                 (Fin 0) (items state)
      in f64_div (Math_round (f64_mul raw (Fin 100))) (Fin 100))"

definition selectContainsFragileItems :: "CartState \<Rightarrow> bool" where
  "selectContainsFragileItems state = list_ex is_fragile (items state)"

definition selectContainsPreorderItems :: "CartState \<Rightarrow> bool" where
  "selectContainsPreorderItems state = list_ex is_preorder (items state)"

definition selectHasMixedAvailability :: "CartState \<Rightarrow> bool" where
  "selectHasMixedAvailability state =
     (if length (items state) < 2 then False
      else
        (let hasInstant = list_ex (\<lambda>item. \<not> is_preorder item) (items state);
             hasPreorder = list_ex is_preorder (items state)
         in hasInstant \<and> hasPreorder))"

record SplitCart =
  instantItems :: "CartItem list"
  preorderItems :: "CartItem list"
  instantSubtotal :: jsnum
  preorderSubtotal :: jsnum
  instantHasFragile :: bool
  preorderHasFragile :: bool

text \<open>The \<open>for ... of\<close> loop of \<open>splitCartIntoTwo\<close>, pushing onto two arrays.\<close>

fun split_loop :: "CartItem list \<Rightarrow> CartItem list \<Rightarrow> CartItem list
    \<Rightarrow> CartItem list \<times> CartItem list" where
  "split_loop [] instant preorder = (instant, preorder)"
| "split_loop (item # rest) instant preorder =
     (if is_preorder item then split_loop rest instant (preorder @ [item])
      else split_loop rest (instant @ [item]) preorder)"

definition splitCartIntoTwo :: "CartItem list \<Rightarrow> SplitCart" where
  "splitCartIntoTwo its =
     (let (instant, preorder) = split_loop its [] []
      in \<lparr> instantItems = instant,
           preorderItems = preorder,
           instantSubtotal = calcSubtotalForItems instant,
           preorderSubtotal = calcSubtotalForItems preorder,
           instantHasFragile = list_ex is_fragile instant,
           preorderHasFragile = list_ex is_fragile preorder \<rparr>)"

definition buildCartItemId :: "string \<Rightarrow> string option \<Rightarrow> string" where
  "buildCartItemId productId msg =
     (let normalised = toLowerCase (trim (case msg of None \<Rightarrow> [] | Some m \<Rightarrow> m))
      in productId @ ''::'' @ normalised)"


section \<open>The cart store\<close>

text \<open>\<open>Array.prototype.findIndex\<close>; \<open>None\<close> is the result \<open>-1\<close>.\<close>

fun findIndex :: "('a \<Rightarrow> bool) \<Rightarrow> 'a list \<Rightarrow> nat option" where
  "findIndex P [] = None"
| "findIndex P (x # xs) = (if P x then Some 0 else map_option Suc (findIndex P xs))"

text \<open>\<open>custom_message?.trim() || undefined\<close>: the empty string is falsy.\<close>

definition trimmed_or_undefined :: "string option \<Rightarrow> string option" where
  "trimmed_or_undefined msg =
     (case msg of
        None \<Rightarrow> None
      | Some m \<Rightarrow> if trim m = [] then None else Some (trim m))"

definition initial_state :: CartState where
  "initial_state = \<lparr> items = [] \<rparr>"

definition addItem :: "AddItemPayload \<Rightarrow> CartState \<Rightarrow> CartState" where
  "addItem payload state =
     (let prod = payload_product payload;
          qty = (case payload_quantity payload of None \<Rightarrow> 1 | Some q \<Rightarrow> q);
          msg = payload_custom_message payload;
          incomingId = buildCartItemId (p_id prod) msg
      in case findIndex (\<lambda>item. cartItemId item = incomingId) (items state) of
           Some existingIndex \<Rightarrow>
             state\<lparr> items := (items state)[existingIndex :=
               (items state ! existingIndex)
                 \<lparr> quantity := quantity (items state ! existingIndex) + qty \<rparr>] \<rparr>
         | None \<Rightarrow>
             state\<lparr> items := items state @
               [\<lparr> product = prod,
                  quantity = qty,
                  custom_message = trimmed_or_undefined msg,
                  is_fragile = p_is_fragile prod,
                  is_preorder = (case payload_is_preorder payload of None \<Rightarrow> False | Some b \<Rightarrow> b),
                  cartItemId = incomingId \<rparr>] \<rparr>)"

definition removeItem :: "string \<Rightarrow> CartState \<Rightarrow> CartState" where
  "removeItem cid state = state\<lparr> items := filter (\<lambda>item. cartItemId item \<noteq> cid) (items state) \<rparr>"

definition updateQuantity :: "string \<Rightarrow> int \<Rightarrow> CartState \<Rightarrow> CartState" where
  "updateQuantity cid qty state =
     (if qty \<le> 0 then state\<lparr> items := filter (\<lambda>item. cartItemId item \<noteq> cid) (items state) \<rparr>
      else state\<lparr> items := map (\<lambda>item. if cartItemId item = cid then item\<lparr> quantity := qty \<rparr> else item)
                                (items state) \<rparr>)"

definition removeAllByProductId :: "string \<Rightarrow> CartState \<Rightarrow> CartState" where
  "removeAllByProductId productId state =
     state\<lparr> items := filter (\<lambda>item. p_id (product item) \<noteq> productId) (items state) \<rparr>"

definition clearCart :: "CartState \<Rightarrow> CartState" where
  "clearCart state = state\<lparr> items := [] \<rparr>"

text \<open>
  The persisted snapshot. Its version is the constructor: \<open>migrate\<close> rebuilds the keys
  of a version 0 snapshot and returns a version 1 snapshot as it is.
\<close>

datatype PersistedState = Version0 "LegacyItem list" | Version1 CartState

fun migrate :: "PersistedState \<Rightarrow> CartState" where
  "migrate (Version0 old_items) =
     \<lparr> items = map (\<lambda>item.
         \<lparr> product = product item,
           quantity = quantity item,
           custom_message = custom_message item,
           is_fragile = is_fragile item,
           is_preorder = is_preorder item,
           cartItemId = buildCartItemId (p_id (product item)) (custom_message item) \<rparr>) old_items \<rparr>"
| "migrate (Version1 state) = state"

datatype CartOp =
    AddItem AddItemPayload
  | RemoveItem string
  | UpdateQuantity string int
  | RemoveAllByProductId string
  | ClearCart

fun apply_op :: "CartOp \<Rightarrow> CartState \<Rightarrow> CartState" where
  "apply_op (AddItem payload) state = addItem payload state"
| "apply_op (RemoveItem cid) state = removeItem cid state"
| "apply_op (UpdateQuantity cid qty) state = updateQuantity cid qty state"
| "apply_op (RemoveAllByProductId productId) state = removeAllByProductId productId state"
| "apply_op ClearCart state = clearCart state"

definition run_ops :: "CartOp list \<Rightarrow> CartState \<Rightarrow> CartState" where
  "run_ops ops state = foldl (\<lambda>s op. apply_op op s) state ops"


section \<open>Fee constants and delivery-time validation\<close>

definition BASE_DELIVERY_FEE :: jsnum where
  "BASE_DELIVERY_FEE = Fin 150"

definition FRAGILE_ITEM_FEE :: jsnum where
  "FRAGILE_ITEM_FEE = Fin 100"

definition openHour :: int where "openHour = 10"
definition openMinute :: int where "openMinute = 0"
definition closeHour :: int where "closeHour = 23"
definition closeMinute :: int where "closeMinute = 0"

definition PREORDER_MIN_LEAD_MS :: int where
  "PREORDER_MIN_LEAD_MS = 30 * 60 * 1000"

text \<open>
  A valid \<open>Date\<close> is its time value, the milliseconds since the epoch; \<open>None\<close> is
  the invalid date. The parser behind \<open>new Date(isoString)\<close> is a parameter. Local
  time is UTC shifted by a fixed number of minutes.
\<close>

definition getHours :: "int \<Rightarrow> int \<Rightarrow> int" where
  "getHours tz t = ((t + tz * 60000) div 3600000) mod 24"

definition getMinutes :: "int \<Rightarrow> int \<Rightarrow> int" where
  "getMinutes tz t = ((t + tz * 60000) div 60000) mod 60"

definition validateDeliveryTime :: "(string \<Rightarrow> int option) \<Rightarrow> int \<Rightarrow> string \<Rightarrow> int \<Rightarrow> string option" where
  "validateDeliveryTime dateParse tz isoString now =
     (case dateParse isoString of
        None \<Rightarrow> Some ''Please select a valid delivery time.''
      | Some requested \<Rightarrow>
          (let minAllowed = now + PREORDER_MIN_LEAD_MS
           in if requested < minAllowed
              then Some ''Delivery time must be at least 30 minutes from now.''
              else
                (let h = getHours tz requested;
                     m = getMinutes tz requested;
                     totalMins = h * 60 + m;
                     openMins = openHour * 60 + openMinute;
                     closeMins = closeHour * 60 + closeMinute
                 in if totalMins < openMins \<or> totalMins > closeMins
                    then Some ''Delivery is only available between 10:00 AM and 11:00 PM.''
                    else None)))"


section \<open>The order submission\<close>

record SerializedProduct =
  sp_id :: string
  sp_name :: string
  sp_price :: string
  sp_is_fragile :: bool

record SerializedCartItem =
  s_product :: SerializedProduct
  s_quantity :: int
  s_custom_message :: "string option"
  s_is_preorder :: bool

text \<open>
  What \<open>JSON.parse\<close> makes of the \<open>cart_items\<close> field: it throws, or yields a value
  that is not an array, or an array of well-typed line items.
\<close>

datatype CartJson = Malformed | NotArray | ItemArray "SerializedCartItem list"

record ReceiptFile =
  file_name :: string
  file_type :: string
  file_size :: nat

record FormData =
  fd_customer_name :: "string option"
  fd_customer_phone :: "string option"
  fd_address_line1 :: "string option"
  fd_address_line2 :: "string option"
  fd_address_city :: "string option"
  fd_payment_method :: "string option"
  fd_requested_delivery_time :: "string option"
  fd_cart_items :: CartJson
  fd_payment_receipt :: "ReceiptFile option"

datatype ProcessOrderResult =
    Success string
  | Failure string "(string \<times> string) list option"

record DeliveryAddress =
  line1 :: string
  line2 :: "string option"
  city :: string

text \<open>
  The money columns hold the number that the \<open>toFixed(2)\<close> string denotes. An order
  row is the inserted payload with the columns the database fills in.
\<close>

record OrderInsert =
  o_customer_name :: string
  o_customer_phone :: string
  o_address :: DeliveryAddress
  o_status :: string
  o_payment_method :: string
  o_payment_receipt_url :: "string option"
  o_subtotal :: jsnum
  o_base_delivery_fee :: jsnum
  o_fragile_item_fee :: jsnum
  o_is_preorder :: bool
  o_requested_delivery_time :: "int option"

record OrderRow = OrderInsert +
  o_id :: string
  o_total_amount :: jsnum

record OrderItemInsert =
  oi_order_id :: string
  oi_product_id :: string
  oi_quantity :: int
  oi_price_at_purchase :: string
  oi_custom_message :: "string option"

record Settings =
  current_delivery_fee :: string
  current_fragile_fee :: string

record Database =
  receipts :: "(string \<times> ReceiptFile) list"
  orders :: "OrderRow list"
  order_items :: "OrderItemInsert list"
  settings :: "Settings option"

text \<open>
  What the server action takes from its surroundings: whether the two Supabase
  environment variables are set, the clock, the time zone, the date parser, the text
  \<open>Date.now()-random\<close> of a receipt's file name, and how the storage bucket and the
  two tables answer.
\<close>

record Server =
  env_configured :: bool
  clock :: int
  tz_offset :: int
  date_parse :: "string \<Rightarrow> int option"
  name_stamp :: string
  upload_fails :: bool
  public_url :: "string \<Rightarrow> string"
  order_insert_id :: "OrderInsert \<Rightarrow> string option"
  items_insert_fails :: bool

datatype Thrown = MissingSupabaseEnv

definition sanitize :: "string option \<Rightarrow> string" where
  "sanitize val = (case val of None \<Rightarrow> [] | Some s \<Rightarrow> trim s)"

text \<open>The regular expression \<open>^(\+92|0)?3\d{9}$\<close>, after all white space is removed.\<close>

definition isValidPhone :: "string \<Rightarrow> bool" where
  "isValidPhone phone =
     (let p = filter (\<lambda>c. \<not> is_ws c) phone;
          r = (if take 3 p = ''+92'' then drop 3 p
               else if take 1 p = ''0'' then drop 1 p
               else p)
      in take 1 r = ''3'' \<and> length r = 10 \<and> list_all is_digit (drop 1 r))"

definition ALLOWED_PAYMENT_METHODS :: "string list" where
  "ALLOWED_PAYMENT_METHODS = [''cash_on_delivery'', ''online_transfer'', ''card'', ''wallet'']"

definition MAX_RECEIPT_BYTES :: nat where
  "MAX_RECEIPT_BYTES = 5 * 1024 * 1024"

definition ALLOWED_RECEIPT_MIME :: "string list" where
  "ALLOWED_RECEIPT_MIME = [''image/jpeg'', ''image/png'', ''image/webp'', ''application/pdf'']"

text \<open>\<open>name.split('.').pop()\<close>: the text after the last dot.\<close>

definition extension :: "string \<Rightarrow> string" where
  "extension name = rev (takeWhile (\<lambda>c. c \<noteq> CHR ''.'') (rev name))"

text \<open>The inline fee calculation of \<open>processOrder\<close> (step 3).\<close>

definition calc_subtotal :: "SerializedCartItem list \<Rightarrow> jsnum" where
  "calc_subtotal its =
     foldl (\<lambda>sum item.
        let price = parseFloat (sp_price (s_product item))
        in f64_add sum (if isNaN price then Fin 0
                        else f64_mul price (Fin (of_int (s_quantity item)))))
      (Fin 0) its"

definition calc_hasFragile :: "SerializedCartItem list \<Rightarrow> bool" where
  "calc_hasFragile its = list_ex (\<lambda>i. sp_is_fragile (s_product i)) its"

definition calc_fragileItemFee :: "SerializedCartItem list \<Rightarrow> jsnum" where
  "calc_fragileItemFee its = (if calc_hasFragile its then FRAGILE_ITEM_FEE else Fin 0)"

text \<open>
  The insert into \<open>orders\<close>: the database may refuse the row; otherwise it stores it
  with a fresh id and the generated column \<open>total_amount\<close>.
\<close>

definition stored_row :: "OrderInsert \<Rightarrow> string \<Rightarrow> OrderRow" where
  "stored_row payload oid =
     \<lparr> o_customer_name = o_customer_name payload,
       o_customer_phone = o_customer_phone payload,
       o_address = o_address payload,
       o_status = o_status payload,
       o_payment_method = o_payment_method payload,
       o_payment_receipt_url = o_payment_receipt_url payload,
       o_subtotal = o_subtotal payload,
       o_base_delivery_fee = o_base_delivery_fee payload,
       o_fragile_item_fee = o_fragile_item_fee payload,
       o_is_preorder = o_is_preorder payload,
       o_requested_delivery_time = o_requested_delivery_time payload,
       o_id = oid,
       o_total_amount = js_add (js_add (o_subtotal payload) (o_base_delivery_fee payload))
                          (o_fragile_item_fee payload) \<rparr>"

definition validate_fields :: "string \<Rightarrow> string \<Rightarrow> string \<Rightarrow> string \<Rightarrow> string
    \<Rightarrow> (string \<times> string) list" where
  "validate_fields customerName customerPhone addressLine1 addressCity paymentMethod =
     (let fe0 = [];
          fe1 = (if customerName = [] \<or> length customerName < 2
                 then AList.update ''customer_name'' ''Please enter your full name.'' fe0 else fe0);
          fe2 = (if \<not> isValidPhone customerPhone
                 then AList.update ''customer_phone''
                        ''Please enter a valid Pakistani mobile number (e.g. 0312 3456789).'' fe1
                 else fe1);
          fe3 = (if addressLine1 = []
                 then AList.update ''address_line1'' ''Street address is required.'' fe2 else fe2);
          fe4 = (if addressCity = []
                 then AList.update ''address_city'' ''City is required.'' fe3 else fe3);
          fe5 = (if paymentMethod \<notin> set ALLOWED_PAYMENT_METHODS
                 then AList.update ''payment_method'' ''Please select a payment method.'' fe4 else fe4)
      in fe5)"

text \<open>
  The pre-order block: the field errors after it, \<open>isPreorder\<close> and
  \<open>requestedDeliveryTime\<close>.
\<close>

definition preorder_validation :: "Server \<Rightarrow> SerializedCartItem list \<Rightarrow> string
    \<Rightarrow> (string \<times> string) list \<Rightarrow> (string \<times> string) list \<times> bool \<times> int option" where
  "preorder_validation srv its deliveryTimeRaw fieldErrors =
     (let hasPreorderItems = list_ex s_is_preorder its
      in if hasPreorderItems then
           (if deliveryTimeRaw = [] then
              (AList.update ''requested_delivery_time''
                 ''Your cart has pre-order items. Please select a delivery time.'' fieldErrors,
               False, None)
            else
              (case validateDeliveryTime (date_parse srv) (tz_offset srv) deliveryTimeRaw
                      (clock srv) of
                 Some timeError \<Rightarrow>
                   (AList.update ''requested_delivery_time'' timeError fieldErrors, False, None)
               | None \<Rightarrow> (fieldErrors, True, date_parse srv deliveryTimeRaw)))
         else (fieldErrors, False, None))"

definition receipt_validation :: "string \<Rightarrow> ReceiptFile option \<Rightarrow> (string \<times> string) list
    \<Rightarrow> (string \<times> string) list" where
  "receipt_validation paymentMethod receiptFile fieldErrors =
     (if paymentMethod = ''online_transfer'' then
        (case receiptFile of
           None \<Rightarrow> AList.update ''payment_receipt''
                     ''Please upload your bank transfer screenshot.'' fieldErrors
         | Some f \<Rightarrow>
             if file_size f = 0 then
               AList.update ''payment_receipt''
                 ''Please upload your bank transfer screenshot.'' fieldErrors
             else if file_type f \<notin> set ALLOWED_RECEIPT_MIME then
               AList.update ''payment_receipt''
                 ''Only JPG, PNG, WebP, or PDF receipts are accepted.'' fieldErrors
             else if file_size f > MAX_RECEIPT_BYTES then
               AList.update ''payment_receipt'' ''Receipt file must be under 5 MB.'' fieldErrors
             else fieldErrors)
      else fieldErrors)"

text \<open>
  Step 4, the upload of the receipt: \<open>None\<close> when the storage bucket answers with an
  error, otherwise the public URL (if a file was uploaded) and the database after it.
\<close>

definition upload_receipt :: "Server \<Rightarrow> string \<Rightarrow> ReceiptFile option \<Rightarrow> Database
    \<Rightarrow> (string option \<times> Database) option" where
  "upload_receipt srv paymentMethod receiptFile db =
     (case receiptFile of
        None \<Rightarrow> Some (None, db)
      | Some f \<Rightarrow>
          if paymentMethod = ''online_transfer'' \<and> file_size f > 0 then
            (let ext = extension (file_name f);
                 fileName = ''receipts/'' @ name_stamp srv @ ''.'' @ ext
             in if upload_fails srv then None
                else Some (Some (public_url srv fileName),
                           db\<lparr> receipts := receipts db @ [(fileName, f)] \<rparr>))
          else Some (None, db))"

text \<open>Step 5, the insert into \<open>orders\<close>: \<open>None\<close> when the database refuses the row.\<close>

definition insert_order :: "Server \<Rightarrow> OrderInsert \<Rightarrow> Database \<Rightarrow> (string \<times> Database) option" where
  "insert_order srv orderPayload db =
     (case order_insert_id srv orderPayload of
        None \<Rightarrow> None
      | Some orderId \<Rightarrow>
          Some (orderId, db\<lparr> orders := orders db @ [stored_row orderPayload orderId] \<rparr>))"

text \<open>Step 6, the insert into \<open>order_items\<close>: an error is logged and nothing is stored.\<close>

definition insert_order_items :: "Server \<Rightarrow> OrderItemInsert list \<Rightarrow> Database \<Rightarrow> Database" where
  "insert_order_items srv itemPayloads db =
     (if items_insert_fails srv then db
      else db\<lparr> order_items := order_items db @ itemPayloads \<rparr>)"

definition processOrder :: "Server \<Rightarrow> FormData \<Rightarrow> Database
    \<Rightarrow> Thrown + (ProcessOrderResult \<times> Database)" where
  "processOrder srv formData db =
     (if \<not> env_configured srv then Inl MissingSupabaseEnv
      else
       (let customerName = sanitize (fd_customer_name formData);
            customerPhone = sanitize (fd_customer_phone formData);
            addressLine1 = sanitize (fd_address_line1 formData);
            addressLine2 = sanitize (fd_address_line2 formData);
            addressCity = sanitize (fd_address_city formData);
            paymentMethod = sanitize (fd_payment_method formData);
            deliveryTimeRaw = sanitize (fd_requested_delivery_time formData);
            receiptFile = fd_payment_receipt formData;
            fieldErrors = validate_fields customerName customerPhone addressLine1 addressCity
                            paymentMethod
        in case fd_cart_items formData of
             Malformed \<Rightarrow>
               Inr (Failure ''Your cart is empty. Please add items before checking out.'' None, db)
           | NotArray \<Rightarrow>
               Inr (Failure ''Your cart is empty. Please add items before checking out.'' None, db)
           | ItemArray [] \<Rightarrow>
               Inr (Failure ''Your cart is empty. Please add items before checking out.'' None, db)
           | ItemArray (first # others) \<Rightarrow>
              (let its = first # others;
                   (fieldErrors, isPreorder, requestedDeliveryTime) =
                     preorder_validation srv its deliveryTimeRaw fieldErrors;
                   fieldErrors = receipt_validation paymentMethod receiptFile fieldErrors
               in if fieldErrors \<noteq> [] then
                    Inr (Failure ''Please fix the errors below.'' (Some fieldErrors), db)
                  else
                   (let subtotal = calc_subtotal its;
                        fragileItemFee = calc_fragileItemFee its
                    in case upload_receipt srv paymentMethod receiptFile db of
                         None \<Rightarrow>
                           Inr (Failure
                                  ''We could not save your payment receipt. Please try again.''
                                  None, db)
                       | Some (receiptUrl, db1) \<Rightarrow>
                          (let address = \<lparr> line1 = addressLine1,
                                           line2 = (if addressLine2 = [] then None
                                                    else Some addressLine2),
                                           city = addressCity \<rparr>;
                               orderPayload =
                                 \<lparr> o_customer_name = customerName,
                                   o_customer_phone = customerPhone,
                                   o_address = address,
                                   o_status = ''pending'',
                                   o_payment_method = paymentMethod,
                                   o_payment_receipt_url = receiptUrl,
                                   o_subtotal = toFixed2 subtotal,
                                   o_base_delivery_fee = toFixed2 BASE_DELIVERY_FEE,
                                   o_fragile_item_fee = toFixed2 fragileItemFee,
                                   o_is_preorder = isPreorder,
                                   o_requested_delivery_time = requestedDeliveryTime \<rparr>
                           in case insert_order srv orderPayload db1 of
                                None \<Rightarrow>
                                  Inr (Failure
                                         ''We could not place your order. Please try again.''
                                         None, db1)
                              | Some (orderId, db2) \<Rightarrow>
                                 (let itemPayloads =
                                        map (\<lambda>item.
                                          \<lparr> oi_order_id = orderId,
                                            oi_product_id = sp_id (s_product item),
                                            oi_quantity = s_quantity item,
                                            oi_price_at_purchase = sp_price (s_product item),
                                            oi_custom_message =
                                              trimmed_or_undefined (s_custom_message item) \<rparr>)
                                          its
                                  in Inr (Success orderId,
                                          insert_order_items srv itemPayloads db2)))))))"

text \<open>\<open>getSettings\<close>: the singleton row, or the static fallback when it cannot be read.\<close>

definition getSettings :: "Server \<Rightarrow> Database \<Rightarrow> Thrown + (jsnum \<times> jsnum)" where
  "getSettings srv db =
     (if \<not> env_configured srv then Inl MissingSupabaseEnv
      else case settings db of
             None \<Rightarrow> Inr (Fin 150, Fin 100)
           | Some row \<Rightarrow>
               Inr (parseFloat (current_delivery_fee row), parseFloat (current_fragile_fee row)))"


section \<open>The checkout page\<close>

datatype CheckoutView = SplitNotice | StandardForm | InstantForm | PreorderForm

record CheckoutFormState =
  customerName :: string
  customerPhone :: string
  addressLine1 :: string
  addressLine2 :: string
  addressCity :: string
  paymentMethod :: string
  deliveryTime :: string
  deliveryTimeError :: string
  receiptFile :: "ReceiptFile option"
  serverError :: string
  fieldErrors :: "(string \<times> string) list"

record CheckoutPage =
  cart :: CartState
  view :: CheckoutView
  form :: CheckoutFormState
  pushed_route :: "string option"

definition initial_view :: "CartState \<Rightarrow> CheckoutView" where
  "initial_view state = (if selectHasMixedAvailability state then SplitNotice else StandardForm)"

definition formItems :: "CheckoutView \<Rightarrow> CartState \<Rightarrow> CartItem list" where
  "formItems v state =
     (if v = InstantForm then instantItems (splitCartIntoTwo (items state))
      else if v = PreorderForm then preorderItems (splitCartIntoTwo (items state))
      else items state)"

definition isPreorderBatch :: "CheckoutView \<Rightarrow> CartState \<Rightarrow> bool" where
  "isPreorderBatch v state \<longleftrightarrow>
     v = PreorderForm \<or> (v = StandardForm \<and> list_ex is_preorder (items state))"

definition serialize_item :: "CartItem \<Rightarrow> SerializedCartItem" where
  "serialize_item item =
     \<lparr> s_product = \<lparr> sp_id = p_id (product item),
                      sp_name = p_name (product item),
                      sp_price = p_price (product item),
                      sp_is_fragile = p_is_fragile (product item) \<rparr>,
       s_quantity = quantity item,
       s_custom_message = custom_message item,
       s_is_preorder = is_preorder item \<rparr>"

text \<open>
  The form data \<open>handleSubmit\<close> builds. \<open>JSON.stringify\<close> of the line items followed
  by \<open>JSON.parse\<close> on the server gives the line items back.
\<close>

definition build_form_data :: "CartItem list \<Rightarrow> CheckoutFormState \<Rightarrow> FormData" where
  "build_form_data its f =
     \<lparr> fd_customer_name = Some (customerName f),
       fd_customer_phone = Some (customerPhone f),
       fd_address_line1 = Some (addressLine1 f),
       fd_address_line2 = Some (addressLine2 f),
       fd_address_city = Some (addressCity f),
       fd_payment_method = Some (paymentMethod f),
       fd_requested_delivery_time = (if deliveryTime f = [] then None else Some (deliveryTime f)),
       fd_cart_items = ItemArray (map serialize_item its),
       fd_payment_receipt = receiptFile f \<rparr>"

definition handleSubmit :: "Server \<Rightarrow> CheckoutPage \<times> Database
    \<Rightarrow> Thrown + (CheckoutPage \<times> Database)" where
  "handleSubmit srv st =
     (let page = fst st; db = snd st;
          its = formItems (view page) (cart page)
      in if view page = SplitNotice then Inr (page, db)
         else if isPreorderBatch (view page) (cart page) \<and> deliveryTimeError (form page) \<noteq> []
         then Inr (page, db)
         else
           (case processOrder srv (build_form_data its (form page)) db of
              Inl e \<Rightarrow> Inl e
            | Inr (Success orderId, db') \<Rightarrow>
                Inr (page\<lparr> cart := clearCart (cart page),
                           pushed_route := Some (''/order-confirmation?id='' @ orderId) \<rparr>, db')
            | Inr (Failure err fe, db') \<Rightarrow>
                Inr (page\<lparr> form := (form page)
                             \<lparr> serverError := err,
                               fieldErrors := (case fe of None \<Rightarrow> fieldErrors (form page)
                                               | Some errs \<Rightarrow> errs) \<rparr> \<rparr>, db')))"


section \<open>The subtotals on untyped items\<close>

text \<open>
  The two subtotal computations once more, on items as they exist at run time: the
  \<open>product\<close> of an item may be absent (or \<open>null\<close>), and then \<open>item.product.price\<close>
  throws a \<open>TypeError\<close>; the \<open>price\<close> of a product may be absent, and then
  \<open>parseFloat(undefined)\<close> is \<open>NaN\<close>.
\<close>

datatype JsError = TypeError

record RawProduct =
  raw_price :: "string option"

record RawItem =
  raw_product :: "RawProduct option"
  raw_quantity :: int

definition raw_parseFloat :: "string option \<Rightarrow> jsnum" where
  "raw_parseFloat price = (case price of None \<Rightarrow> NaN | Some s \<Rightarrow> parseFloat s)"

fun reduce_order_subtotal :: "jsnum \<Rightarrow> RawItem list \<Rightarrow> JsError + jsnum" where
  "reduce_order_subtotal acc [] = Inr acc"
| "reduce_order_subtotal acc (item # rest) =
     (case raw_product item of
        None \<Rightarrow> Inl TypeError
      | Some pr \<Rightarrow>
          (let price = raw_parseFloat (raw_price pr)
           in reduce_order_subtotal
                (f64_add acc (if isNaN price then Fin 0
                              else f64_mul price (Fin (of_int (raw_quantity item))))) rest))"

fun reduce_cart_subtotal :: "jsnum \<Rightarrow> RawItem list \<Rightarrow> JsError + jsnum" where
  "reduce_cart_subtotal acc [] = Inr acc"
| "reduce_cart_subtotal acc (item # rest) =
     (case raw_product item of
        None \<Rightarrow> Inl TypeError
      | Some pr \<Rightarrow>
          (let unitPrice = raw_parseFloat (raw_price pr);
               safePrice = (if isNaN unitPrice then Fin 0 else unitPrice)
           in reduce_cart_subtotal
                (f64_add acc (f64_mul safePrice (Fin (of_int (raw_quantity item))))) rest))"

definition raw_order_subtotal :: "RawItem list \<Rightarrow> JsError + jsnum" where
  "raw_order_subtotal its = reduce_order_subtotal (Fin 0) its"

definition raw_calcSubtotalForItems :: "RawItem list \<Rightarrow> JsError + jsnum" where
  "raw_calcSubtotalForItems its =
     (case reduce_cart_subtotal (Fin 0) its of
        Inl e \<Rightarrow> Inl e
      | Inr raw \<Rightarrow> Inr (f64_div (Math_round (f64_mul raw (Fin 100))) (Fin 100)))"





section \<open>Notions used in the statements\<close>

text \<open>The key and the quantity an \<open>addItem\<close> call works with, and the line it appends.\<close>

definition payload_key :: "AddItemPayload \<Rightarrow> string" where
  "payload_key payload =
     buildCartItemId (p_id (payload_product payload)) (payload_custom_message payload)"

definition payload_qty :: "AddItemPayload \<Rightarrow> int" where
  "payload_qty payload = (case payload_quantity payload of None \<Rightarrow> 1 | Some q \<Rightarrow> q)"

definition new_item :: "AddItemPayload \<Rightarrow> CartItem" where
  "new_item payload =
     \<lparr> product = payload_product payload,
       quantity = payload_qty payload,
       custom_message = trimmed_or_undefined (payload_custom_message payload),
       is_fragile = p_is_fragile (payload_product payload),
       is_preorder = (case payload_is_preorder payload of None \<Rightarrow> False | Some b \<Rightarrow> b),
       cartItemId = payload_key payload \<rparr>"

text \<open>The identity of a stored line, recomputed from its product id and its message.\<close>

definition identity_of :: "CartItem \<Rightarrow> string" where
  "identity_of item = buildCartItemId (p_id (product item)) (custom_message item)"

definition key_consistent :: "CartItem \<Rightarrow> bool" where
  "key_consistent item \<longleftrightarrow> cartItemId item = identity_of item"

definition keys_consistent :: "CartState \<Rightarrow> bool" where
  "keys_consistent state \<longleftrightarrow> list_all key_consistent (items state)"

definition unique_keys :: "CartState \<Rightarrow> bool" where
  "unique_keys state \<longleftrightarrow> distinct (map cartItemId (items state))"

definition lines_with_key :: "string \<Rightarrow> CartState \<Rightarrow> CartItem list" where
  "lines_with_key k state = filter (\<lambda>item. cartItemId item = k) (items state)"

definition lines_with_identity :: "string \<Rightarrow> CartState \<Rightarrow> CartItem list" where
  "lines_with_identity k state = filter (\<lambda>item. identity_of item = k) (items state)"

text \<open>A sequence of \<open>addItem\<close> calls.\<close>

definition addItems :: "AddItemPayload list \<Rightarrow> CartState \<Rightarrow> CartState" where
  "addItems ps state = foldl (\<lambda>s p. addItem p s) state ps"

text \<open>
  The amount of one line: the parsed unit price times the quantity, and 0 when the
  price does not parse. \<open>f64_sum\<close> adds a list of numbers from left to right, starting
  from 0. \<open>price_parses\<close> says that a price string denotes a number.
\<close>

definition line_amount :: "string \<Rightarrow> int \<Rightarrow> jsnum" where
  "line_amount price qty =
     (if parseFloat price = NaN then Fin 0 else f64_mul (parseFloat price) (Fin (of_int qty)))"






text \<open>A number of the model is a double when rounding leaves it as it is.\<close>

definition is_double :: "jsnum \<Rightarrow> bool" where
  "is_double x = (case x of Fin a \<Rightarrow> round64 a = Fin a | _ \<Rightarrow> True)"

definition whole_cents :: "rat \<Rightarrow> bool" where
  "whole_cents r \<longleftrightarrow> of_int \<lfloor>r * 100\<rfloor> = r * 100"

text \<open>The local minute of the day, and the local time of day in milliseconds.\<close>

definition minute_of_day :: "int \<Rightarrow> int \<Rightarrow> int" where
  "minute_of_day tz t = ((t + tz * 60000) div 60000) mod 1440"

definition time_of_day_ms :: "int \<Rightarrow> int \<Rightarrow> int" where
  "time_of_day_ms tz t = (t + tz * 60000) mod 86400000"

definition cart_has_no_items :: "CartJson \<Rightarrow> bool" where
  "cart_has_no_items cj \<longleftrightarrow> cj = Malformed \<or> cj = NotArray \<or> cj = ItemArray []"

definition other_batch :: "CheckoutView \<Rightarrow> CartState \<Rightarrow> CartItem list" where
  "other_batch v state =
     (if v = InstantForm then preorderItems (splitCartIntoTwo (items state))
      else instantItems (splitCartIntoTwo (items state)))"


section \<open>Example data\<close>

definition make_product :: "string \<Rightarrow> string \<Rightarrow> string \<Rightarrow> bool \<Rightarrow> Product" where
  "make_product pid nm pr fragile =
     \<lparr> p_id = pid, p_name = nm, p_description = None, p_category = Other, p_price = pr,
       p_image_url = None, p_is_available = True, p_available_from = None,
       p_available_until = None, p_is_fragile = fragile, p_requires_custom_text = False,
       p_created_at = ''2026-02-24T10:00:00+00:00'',
       p_updated_at = ''2026-02-24T10:00:00+00:00'' \<rparr>"

definition cake :: Product where
  "cake = make_product ''abc-123'' ''Chocolate Cake'' ''100.00'' True"

definition chips :: Product where
  "chips = make_product ''def-456'' ''Chips'' ''50.00'' False"

definition sweet :: Product where
  "sweet = make_product ''ghi-789'' ''Sweet'' ''0.004'' False"


definition add_cake :: "string option \<Rightarrow> int \<Rightarrow> AddItemPayload" where
  "add_cake msg q =
     \<lparr> payload_product = cake, payload_quantity = Some q, payload_custom_message = msg,
       payload_is_preorder = Some True \<rparr>"

definition add_chips :: AddItemPayload where
  "add_chips =
     \<lparr> payload_product = chips, payload_quantity = None, payload_custom_message = None,
       payload_is_preorder = None \<rparr>"

definition add_cake_again :: AddItemPayload where
  "add_cake_again =
     \<lparr> payload_product = make_product ''abc-123'' ''Chocolate Cake'' ''120.00'' False,
       payload_quantity = Some 2,
       payload_custom_message = Some ''  happy BIRTHDAY '',
       payload_is_preorder = Some False \<rparr>"

definition mixed_cart :: CartState where
  "mixed_cart = addItem (add_cake (Some ''Happy Birthday'') 1) (addItem add_chips initial_state)"

definition legacy_cake_line :: LegacyItem where
  "legacy_cake_line =
     \<lparr> product = cake, quantity = 2, custom_message = Some ''Happy Birthday'',
       is_fragile = True, is_preorder = False \<rparr>"

definition sweet_line :: CartItem where
  "sweet_line =
     \<lparr> product = sweet, quantity = 1, custom_message = None, is_fragile = False,
       is_preorder = False, cartItemId = ''ghi-789::'' \<rparr>"



definition rounding_product :: Product where
  "rounding_product = make_product ''jkl-012'' ''Rounding'' ''1.005'' False"

definition rounding_line :: CartItem where
  "rounding_line =
     \<lparr> product = rounding_product, quantity = 1, custom_message = None, is_fragile = False,
       is_preorder = False, cartItemId = ''jkl-012::'' \<rparr>"

definition item_without_product :: RawItem where
  "item_without_product = \<lparr> raw_product = None, raw_quantity = 1 \<rparr>"

definition example_date_parse :: "string \<Rightarrow> int option" where
  "example_date_parse s =
     (if s = ''2026-03-01T02:00:00+05:00'' then Some 1772312400000
      else if s = ''2026-03-01T14:00:00+05:00'' then Some 1772355600000
      else if s = ''2026-03-01T23:00:00+05:00'' then Some 1772388000000
      else None)"

definition example_server :: Server where
  "example_server =
     \<lparr> env_configured = True,
       clock = 1772353500000,
       tz_offset = 300,
       date_parse = example_date_parse,
       name_stamp = ''1772353500000-k3j9x2'',
       upload_fails = False,
       public_url = (\<lambda>fileName. ''https://cdn.example/order-receipts/'' @ fileName),
       order_insert_id = (\<lambda>payload. Some ''order-1''),
       items_insert_fails = False \<rparr>"

definition example_database :: Database where
  "example_database =
     \<lparr> receipts = [], orders = [], order_items = [],
       settings = Some \<lparr> current_delivery_fee = ''200.00'', current_fragile_fee = ''100.00'' \<rparr> \<rparr>"

definition example_form :: CheckoutFormState where
  "example_form =
     \<lparr> customerName = ''Ali Khan'',
       customerPhone = ''0312 3456789'',
       addressLine1 = ''12 Main Street'',
       addressLine2 = [],
       addressCity = ''Karachi'',
       paymentMethod = ''cash_on_delivery'',
       deliveryTime = ''2026-03-01T14:00:00+05:00'',
       deliveryTimeError = [],
       receiptFile = None,
       serverError = [],
       fieldErrors = [] \<rparr>"

definition example_order_items :: "SerializedCartItem list" where
  "example_order_items =
     [\<lparr> s_product = \<lparr> sp_id = ''abc-123'', sp_name = ''Chocolate Cake'', sp_price = ''100.00'',
                       sp_is_fragile = True \<rparr>,
        s_quantity = 1, s_custom_message = None, s_is_preorder = False \<rparr>,
      \<lparr> s_product = \<lparr> sp_id = ''def-456'', sp_name = ''Chips'', sp_price = ''50.00'',
                       sp_is_fragile = False \<rparr>,
        s_quantity = 1, s_custom_message = None, s_is_preorder = False \<rparr>]"

definition example_form_data :: FormData where
  "example_form_data =
     \<lparr> fd_customer_name = Some ''Ali Khan'',
       fd_customer_phone = Some ''0312 3456789'',
       fd_address_line1 = Some ''12 Main Street'',
       fd_address_line2 = Some [],
       fd_address_city = Some ''Karachi'',
       fd_payment_method = Some ''cash_on_delivery'',
       fd_requested_delivery_time = None,
       fd_cart_items = ItemArray example_order_items,
       fd_payment_receipt = None \<rparr>"

definition example_page :: CheckoutPage where
  "example_page =
     \<lparr> cart = mixed_cart, view = InstantForm, form = example_form, pushed_route = None \<rparr>"


section \<open>Facts about strings\<close>

lemma dropWhile_of_trimmed_end:
  assumes "xs = [] \<or> \<not> P (hd xs)"
  shows "dropWhile P (rev (dropWhile P (rev xs))) = rev (dropWhile P (rev xs))"
proof -
  define ys where "ys = rev (dropWhile P (rev xs))"
  have parts: "xs = ys @ rev (takeWhile P (rev xs))"
    unfolding ys_def by (metis rev_append rev_rev_ident takeWhile_dropWhile_id)
  have "dropWhile P ys = ys"
  proof (cases ys)
    case Nil
    then show ?thesis by simp
  next
    case (Cons y ys')
    with parts have "hd xs = y" "xs \<noteq> []"
      by (metis append_Cons list.sel(1), metis append_Cons list.distinct(1))
    with assms have "\<not> P y" by simp
    with Cons show ?thesis by simp
  qed
  then show ?thesis by (simp add: ys_def)
qed

lemma dropWhile_starts_outside: "dropWhile P s = [] \<or> \<not> P (hd (dropWhile P s))"
  by (metis hd_dropWhile)

lemma trim_idempotent: "trim (trim s) = trim s"
proof -
  let ?d = "dropWhile is_ws s"
  have "dropWhile is_ws (rev (dropWhile is_ws (rev ?d))) = rev (dropWhile is_ws (rev ?d))"
    by (rule dropWhile_of_trimmed_end) (rule dropWhile_starts_outside)
  then show ?thesis
    by (simp add: trim_def)
qed

lemma trim_Nil: "trim [] = []"
  by (simp add: trim_def)

lemma buildCartItemId_trimmed:
  "buildCartItemId pid (trimmed_or_undefined msg) = buildCartItemId pid msg"
  by (cases msg) (auto simp: buildCartItemId_def trimmed_or_undefined_def trim_idempotent trim_Nil)

section \<open>Properties of the partition\<close>

lemma split_loop_filter:
  "split_loop its a b = (a @ filter (\<lambda>i. \<not> is_preorder i) its, b @ filter is_preorder its)"
  by (induction its arbitrary: a b) auto

lemma instantItems_filter:
  "instantItems (splitCartIntoTwo its) = filter (\<lambda>item. \<not> is_preorder item) its"
  by (simp add: splitCartIntoTwo_def split_loop_filter)

lemma preorderItems_filter:
  "preorderItems (splitCartIntoTwo its) = filter is_preorder its"
  by (simp add: splitCartIntoTwo_def split_loop_filter)

lemma mset_two_filters: "mset (filter (\<lambda>x. \<not> P x) xs) + mset (filter P xs) = mset xs"
  by (induction xs) auto

lemma length_two_filters: "length (filter (\<lambda>x. \<not> P x) xs) + length (filter P xs) = length xs"
  by (induction xs) auto

text \<open>
  C2. \<open>splitCartIntoTwo\<close> puts every item whose \<open>is_preorder\<close> is false into
  \<open>instantItems\<close> and every item whose \<open>is_preorder\<close> is true into \<open>preorderItems\<close>;
  the two arrays share no item, each keeps the order of the source array, together
  they hold exactly the items of the input as a multiset, and their lengths add up to
  the length of the input. The function is pure: its input is a value and is not changed.
\<close>

theorem splitCartIntoTwo_partitions_cart:
  "instantItems (splitCartIntoTwo its) = filter (\<lambda>item. \<not> is_preorder item) its
   \<and> preorderItems (splitCartIntoTwo its) = filter is_preorder its
   \<and> set (instantItems (splitCartIntoTwo its)) \<inter> set (preorderItems (splitCartIntoTwo its)) = {}
   \<and> subseq (instantItems (splitCartIntoTwo its)) its
   \<and> subseq (preorderItems (splitCartIntoTwo its)) its
   \<and> mset (instantItems (splitCartIntoTwo its)) + mset (preorderItems (splitCartIntoTwo its))
       = mset its
   \<and> length (instantItems (splitCartIntoTwo its)) + length (preorderItems (splitCartIntoTwo its))
       = length its"
proof -
  have "set (filter (\<lambda>item. \<not> is_preorder item) its) \<inter> set (filter is_preorder its) = {}"
    by auto
  then show ?thesis
    by (simp only: instantItems_filter preorderItems_filter mset_two_filters length_two_filters
        subseq_filter_left simp_thms)
qed

theorem splitCartIntoTwo_partitions_cart_witness:
  "map cartItemId (instantItems (splitCartIntoTwo (items mixed_cart))) = [''def-456::'']
   \<and> map cartItemId (preorderItems (splitCartIntoTwo (items mixed_cart)))
       = [''abc-123::happy birthday'']
   \<and> length (instantItems (splitCartIntoTwo (items mixed_cart)))
       + length (preorderItems (splitCartIntoTwo (items mixed_cart))) = 2"
proof -
  have a: "map cartItemId (filter (\<lambda>item. \<not> is_preorder item) (items mixed_cart)) = [''def-456::'']"
    by code_simp
  have b: "map cartItemId (filter is_preorder (items mixed_cart)) = [''abc-123::happy birthday'']"
    by code_simp
  have c: "length (items mixed_cart) = 2"
    by code_simp
  note t = splitCartIntoTwo_partitions_cart [of "items mixed_cart"]
  from t have i: "instantItems (splitCartIntoTwo (items mixed_cart))
                  = filter (\<lambda>item. \<not> is_preorder item) (items mixed_cart)"
    by (rule conjunct1)
  from t have p: "preorderItems (splitCartIntoTwo (items mixed_cart))
                  = filter is_preorder (items mixed_cart)"
    by (elim conjE)
  from t have l: "length (instantItems (splitCartIntoTwo (items mixed_cart)))
                  + length (preorderItems (splitCartIntoTwo (items mixed_cart)))
                  = length (items mixed_cart)"
    by (elim conjE)
  from a b c l show ?thesis
    by (simp only: i p simp_thms)
qed


section \<open>Properties of the cart store\<close>

lemma findIndex_None_iff: "findIndex P xs = None \<longleftrightarrow> (\<forall>x\<in>set xs. \<not> P x)"
  by (induction xs) auto

lemma findIndex_Some:
  "findIndex P xs = Some i \<Longrightarrow> i < length xs \<and> P (xs ! i) \<and> (\<forall>j<i. \<not> P (xs ! j))"
proof (induction xs arbitrary: i)
  case Nil
  then show ?case by simp
next
  case (Cons x xs)
  show ?case
  proof (cases "P x")
    case True
    with Cons.prems show ?thesis by simp
  next
    case False
    with Cons.prems obtain k where k: "findIndex P xs = Some k" "i = Suc k"
      by auto
    from Cons.IH[OF k(1)] False k(2) show ?thesis
      by (auto simp: less_Suc_eq_0_disj)
  qed
qed

lemma addItem_merge:
  assumes "findIndex (\<lambda>item. cartItemId item = payload_key payload) (items state) = Some i"
  shows "items (addItem payload state) =
           (items state)[i := (items state ! i)
              \<lparr> quantity := quantity (items state ! i) + payload_qty payload \<rparr>]"
  using assms by (simp add: addItem_def payload_key_def payload_qty_def Let_def)

lemma addItem_new:
  assumes "findIndex (\<lambda>item. cartItemId item = payload_key payload) (items state) = None"
  shows "items (addItem payload state) = items state @ [new_item payload]"
  using assms by (simp add: addItem_def payload_key_def payload_qty_def new_item_def Let_def)

lemma new_item_consistent: "key_consistent (new_item payload)"
  by (simp add: key_consistent_def identity_of_def new_item_def payload_key_def
      buildCartItemId_trimmed)

lemma addItem_keys_consistent:
  assumes "keys_consistent state"
  shows "keys_consistent (addItem payload state)"
proof (cases "findIndex (\<lambda>item. cartItemId item = payload_key payload) (items state)")
  case None
  with assms show ?thesis
    by (simp add: keys_consistent_def addItem_new new_item_consistent)
next
  case (Some i)
  from findIndex_Some[OF Some] have i: "i < length (items state)" by simp
  with assms have "key_consistent (items state ! i)"
    by (simp add: keys_consistent_def list_all_length)
  then have "key_consistent ((items state ! i)
               \<lparr> quantity := quantity (items state ! i) + payload_qty payload \<rparr>)"
    by (simp add: key_consistent_def identity_of_def)
  with assms show ?thesis
    unfolding keys_consistent_def addItem_merge[OF Some] list_all_iff
    by (auto dest!: set_update_subset_insert[THEN subsetD])
qed

lemma apply_op_keys_consistent:
  assumes "keys_consistent state"
  shows "keys_consistent (apply_op op state)"
proof (cases op)
  case (AddItem payload)
  with assms show ?thesis by (simp add: addItem_keys_consistent)
next
  case (RemoveItem cid)
  with assms show ?thesis by (simp add: keys_consistent_def removeItem_def list_all_iff)
next
  case (UpdateQuantity cid qty)
  with assms show ?thesis
    by (auto simp: keys_consistent_def updateQuantity_def list_all_iff key_consistent_def
        identity_of_def)
next
  case (RemoveAllByProductId pid)
  with assms show ?thesis by (simp add: keys_consistent_def removeAllByProductId_def list_all_iff)
next
  case ClearCart
  then show ?thesis by (simp add: keys_consistent_def clearCart_def)
qed

lemma migrate_keys_consistent: "keys_consistent (migrate (Version0 old_items))"
  by (simp add: keys_consistent_def list_all_iff key_consistent_def identity_of_def)

lemma initial_keys_consistent: "keys_consistent initial_state"
  by (simp add: keys_consistent_def initial_state_def)

lemma map_key_update_quantity:
  "i < length xs \<Longrightarrow> map cartItemId (xs[i := (xs ! i)\<lparr> quantity := q \<rparr>]) = map cartItemId xs"
  by (simp add: map_update list_update_same_conv)

lemma addItem_unique_keys:
  assumes "unique_keys state"
  shows "unique_keys (addItem payload state)"
proof (cases "findIndex (\<lambda>item. cartItemId item = payload_key payload) (items state)")
  case None
  then have "payload_key payload \<notin> cartItemId ` set (items state)"
    by (auto simp: findIndex_None_iff)
  with assms show ?thesis
    by (simp add: unique_keys_def addItem_new[OF None] new_item_def)
next
  case (Some i)
  from findIndex_Some[OF Some] have "i < length (items state)" by simp
  with assms show ?thesis
    by (simp add: unique_keys_def addItem_merge[OF Some] map_key_update_quantity)
qed

lemma map_key_set_quantity:
  "map cartItemId (map (\<lambda>item. if cartItemId item = cid then item\<lparr> quantity := qty \<rparr> else item) xs)
   = map cartItemId xs"
  by (induction xs) auto

lemma apply_op_unique_keys:
  assumes "unique_keys state"
  shows "unique_keys (apply_op op state)"
proof (cases op)
  case (AddItem payload)
  with assms show ?thesis by (simp add: addItem_unique_keys)
next
  case (RemoveItem cid)
  with assms show ?thesis by (simp add: unique_keys_def removeItem_def distinct_map_filter)
next
  case (UpdateQuantity cid qty)
  with assms show ?thesis
    by (simp add: unique_keys_def updateQuantity_def distinct_map_filter map_key_set_quantity
        del: map_map)
next
  case (RemoveAllByProductId pid)
  with assms show ?thesis
    by (simp add: unique_keys_def removeAllByProductId_def distinct_map_filter)
next
  case ClearCart
  then show ?thesis by (simp add: unique_keys_def clearCart_def)
qed

lemma initial_unique_keys: "unique_keys initial_state"
  by (simp add: unique_keys_def initial_state_def)

lemma run_ops_invariant:
  assumes "\<And>op s. I s \<Longrightarrow> I (apply_op op s)" "I state"
  shows "I (run_ops ops state)"
  using assms(2) unfolding run_ops_def
  by (induction ops arbitrary: state) (auto intro: assms(1))

lemma reachable_keys_consistent: "keys_consistent (run_ops ops initial_state)"
  by (rule run_ops_invariant) (simp_all add: apply_op_keys_consistent initial_keys_consistent)

lemma reachable_unique_keys: "unique_keys (run_ops ops initial_state)"
  by (rule run_ops_invariant) (simp_all add: apply_op_unique_keys initial_unique_keys)

lemma addItems_keys_consistent: "keys_consistent s \<Longrightarrow> keys_consistent (addItems ps s)"
  unfolding addItems_def by (induction ps arbitrary: s) (simp_all add: addItem_keys_consistent)

lemma identity_is_key:
  assumes "keys_consistent s"
  shows "map identity_of (items s) = map cartItemId (items s)"
    and "lines_with_identity k s = lines_with_key k s"
proof -
  from assms have eq: "\<forall>item\<in>set (items s). identity_of item = cartItemId item"
    by (simp add: keys_consistent_def list_all_iff key_consistent_def)
  then show "map identity_of (items s) = map cartItemId (items s)"
    by simp
  from eq show "lines_with_identity k s = lines_with_key k s"
    unfolding lines_with_identity_def lines_with_key_def
    by (intro filter_cong) simp_all
qed

lemma filter_update_single:
  assumes "i < length xs" "P y" "filter P xs = [x]" "P (xs ! i)"
  shows "filter P (xs[i := y]) = [y] \<and> x = xs ! i"
proof -
  have xs: "xs = take i xs @ xs ! i # drop (Suc i) xs"
    using assms(1) by (simp add: id_take_nth_drop)
  have "filter P xs = filter P (take i xs) @ xs ! i # filter P (drop (Suc i) xs)"
    by (subst xs) (simp add: assms(4))
  with assms(3) have parts: "filter P (take i xs) = []" "filter P (drop (Suc i) xs) = []" "x = xs ! i"
    by (auto simp: append_eq_Cons_conv)
  have "xs[i := y] = take i xs @ y # drop (Suc i) xs"
    using assms(1) by (simp add: upd_conv_take_nth_drop)
  then have "filter P (xs[i := y]) = filter P (take i xs) @ y # filter P (drop (Suc i) xs)"
    by (simp add: assms(2))
  with parts show ?thesis by simp
qed

lemma addItem_existing_line:
  assumes "lines_with_key (payload_key p) s = [it]"
  shows "lines_with_key (payload_key p) (addItem p s)
         = [it\<lparr> quantity := quantity it + payload_qty p \<rparr>]"
proof (cases "findIndex (\<lambda>item. cartItemId item = payload_key p) (items s)")
  case None
  then have "lines_with_key (payload_key p) s = []"
    by (simp add: lines_with_key_def findIndex_None_iff)
  with assms show ?thesis by simp
next
  case (Some i)
  let ?P = "\<lambda>item. cartItemId item = payload_key p"
  let ?y = "(items s ! i)\<lparr> quantity := quantity (items s ! i) + payload_qty p \<rparr>"
  from findIndex_Some[OF Some] have i: "i < length (items s)" "?P (items s ! i)"
    by simp_all
  have y: "?P ?y" using i(2) by simp
  from assms have single: "filter ?P (items s) = [it]"
    by (simp add: lines_with_key_def)
  from filter_update_single[of i "items s" ?P ?y it, OF i(1) y single i(2)]
  show ?thesis
    by (simp add: lines_with_key_def addItem_merge[OF Some])
qed

lemma addItem_absent_line:
  assumes "lines_with_key (payload_key p) s = []"
  shows "lines_with_key (payload_key p) (addItem p s) = [new_item p]"
proof -
  from assms have none: "findIndex (\<lambda>item. cartItemId item = payload_key p) (items s) = None"
    by (simp add: lines_with_key_def findIndex_None_iff filter_empty_conv)
  from assms show ?thesis
    by (simp add: lines_with_key_def addItem_new[OF none] new_item_def)
qed

lemma addItems_existing_line:
  assumes "\<forall>p\<in>set ps. payload_key p = k" "lines_with_key k s = [it]"
  shows "lines_with_key k (addItems ps s)
         = [it\<lparr> quantity := quantity it + sum_list (map payload_qty ps) \<rparr>]"
  using assms
proof (induction ps arbitrary: s it)
  case Nil
  then show ?case by (simp add: addItems_def)
next
  case (Cons p ps)
  from Cons.prems have k: "payload_key p = k" by simp
  from Cons.prems(2) k
  have "lines_with_key k (addItem p s) = [it\<lparr> quantity := quantity it + payload_qty p \<rparr>]"
    using addItem_existing_line[of p s it] by simp
  from Cons.IH[OF _ this] Cons.prems(1)
  show ?case by (simp add: addItems_def add.assoc)
qed

lemma addItems_absent_line:
  assumes "\<forall>p\<in>set ps. payload_key p = k" "ps \<noteq> []" "lines_with_key k s = []"
  shows "\<exists>it. lines_with_key k (addItems ps s) = [it]
              \<and> quantity it = sum_list (map payload_qty ps)"
proof (cases ps)
  case Nil
  with assms(2) show ?thesis by simp
next
  case (Cons p ps')
  with assms(1) have k: "payload_key p = k" "\<forall>p\<in>set ps'. payload_key p = k" by simp_all
  from assms(3) k(1) have "lines_with_key k (addItem p s) = [new_item p]"
    using addItem_absent_line[of p s] by simp
  from addItems_existing_line[OF k(2) this]
  have "lines_with_key k (addItems ps' (addItem p s))
        = [(new_item p)\<lparr> quantity := quantity (new_item p) + sum_list (map payload_qty ps') \<rparr>]" .
  with Cons show ?thesis
    by (simp add: addItems_def new_item_def)
qed

text \<open>
  C3. After every sequence of cart operations on the empty cart, no two lines of the
  cart have the same identity (product id, \<open>::\<close>, trimmed and lower-cased message, an
  absent message counting as empty). And when a non-empty sequence of \<open>addItem\<close> calls
  that all have the identity \<open>k\<close> is made on such a cart with no line of identity \<open>k\<close>,
  the cart then has exactly one line of identity \<open>k\<close>, whose quantity is the sum of the
  quantities of the calls.
\<close>

theorem cart_has_one_line_per_identity:
  "distinct (map identity_of (items (run_ops ops initial_state)))
   \<and> (ps \<noteq> [] \<and> (\<forall>p\<in>set ps. payload_key p = k)
        \<and> lines_with_identity k (run_ops ops initial_state) = []
      \<longrightarrow> (\<exists>line. lines_with_identity k (addItems ps (run_ops ops initial_state)) = [line]
                  \<and> quantity line = sum_list (map payload_qty ps)))"
proof (intro conjI impI)
  let ?s = "run_ops ops initial_state"
  have c: "keys_consistent ?s" by (rule reachable_keys_consistent)
  from reachable_unique_keys[of ops] show "distinct (map identity_of (items ?s))"
    by (simp add: identity_is_key(1)[OF c] unique_keys_def)
  assume h: "ps \<noteq> [] \<and> (\<forall>p\<in>set ps. payload_key p = k) \<and> lines_with_identity k ?s = []"
  then have "lines_with_key k ?s = []"
    by (simp add: identity_is_key(2)[OF c])
  with h have "\<exists>it. lines_with_key k (addItems ps ?s) = [it]
                    \<and> quantity it = sum_list (map payload_qty ps)"
    by (intro addItems_absent_line) simp_all
  then show "\<exists>line. lines_with_identity k (addItems ps ?s) = [line]
                  \<and> quantity line = sum_list (map payload_qty ps)"
    by (simp add: identity_is_key(2)[OF addItems_keys_consistent[OF c]])
qed

theorem cart_has_one_line_per_identity_witness:
  "[add_cake (Some ''Happy Birthday'') 1, add_cake_again] \<noteq> []
   \<and> map payload_key [add_cake (Some ''Happy Birthday'') 1, add_cake_again]
       = [''abc-123::happy birthday'', ''abc-123::happy birthday'']
   \<and> lines_with_identity ''abc-123::happy birthday'' (run_ops [AddItem add_chips] initial_state) = []
   \<and> distinct (map identity_of (items (run_ops [AddItem add_chips] initial_state)))
   \<and> (\<exists>line. lines_with_identity ''abc-123::happy birthday''
                 (addItems [add_cake (Some ''Happy Birthday'') 1, add_cake_again]
                    (run_ops [AddItem add_chips] initial_state)) = [line]
              \<and> quantity line = 3)"
proof -
  let ?ps = "[add_cake (Some ''Happy Birthday'') 1, add_cake_again]"
  let ?k = "''abc-123::happy birthday''"
  have h1: "?ps \<noteq> []" by simp
  have m: "map payload_key ?ps = [?k, ?k]" by code_simp
  then have h2: "\<forall>p\<in>set ?ps. payload_key p = ?k" by simp
  have h3: "lines_with_identity ?k (run_ops [AddItem add_chips] initial_state) = []"
    by code_simp
  have q: "sum_list (map payload_qty ?ps) = 3" by code_simp
  from cart_has_one_line_per_identity [of "[AddItem add_chips]" ?ps ?k] h1 h2 h3 q m
  show ?thesis by (simp only: simp_thms)
qed

text \<open>
  C9. When the cart already has a line whose key is the identity of an \<open>addItem\<close>
  call, the call replaces that line (the first with the key) by the same line with the
  call's quantity added: the product snapshot, the message, \<open>is_fragile\<close>,
  \<open>is_preorder\<close> and the key of the line stay as they were, no line is added or
  removed, and every other line stays at its position unchanged.
\<close>

theorem addItem_existing_line_changes_only_quantity:
  assumes "\<exists>item\<in>set (items state). cartItemId item = payload_key payload"
  shows "\<exists>i<length (items state).
           cartItemId (items state ! i) = payload_key payload
         \<and> items (addItem payload state)
             = (items state)[i := (items state ! i)
                  \<lparr> quantity := quantity (items state ! i) + payload_qty payload \<rparr>]
         \<and> length (items (addItem payload state)) = length (items state)
         \<and> (\<forall>j<length (items state). j \<noteq> i
               \<longrightarrow> items (addItem payload state) ! j = items state ! j)
         \<and> quantity (items (addItem payload state) ! i)
             = quantity (items state ! i) + payload_qty payload
         \<and> product (items (addItem payload state) ! i) = product (items state ! i)
         \<and> custom_message (items (addItem payload state) ! i) = custom_message (items state ! i)
         \<and> is_fragile (items (addItem payload state) ! i) = is_fragile (items state ! i)
         \<and> is_preorder (items (addItem payload state) ! i) = is_preorder (items state ! i)
         \<and> cartItemId (items (addItem payload state) ! i) = cartItemId (items state ! i)"
proof -
  from assms obtain i
    where found: "findIndex (\<lambda>item. cartItemId item = payload_key payload) (items state) = Some i"
    by (cases "findIndex (\<lambda>item. cartItemId item = payload_key payload) (items state)")
       (auto simp: findIndex_None_iff)
  from findIndex_Some[OF found]
  have i: "i < length (items state)" "cartItemId (items state ! i) = payload_key payload"
    by simp_all
  show ?thesis
  proof (intro exI[of _ i] conjI allI impI)
    show "i < length (items state)" by (rule i(1))
    show "cartItemId (items state ! i) = payload_key payload" by (rule i(2))
    show "items (addItem payload state)
          = (items state)[i := (items state ! i)
               \<lparr> quantity := quantity (items state ! i) + payload_qty payload \<rparr>]"
      by (rule addItem_merge[OF found])
    show "length (items (addItem payload state)) = length (items state)"
      by (simp add: addItem_merge[OF found])
    show "items (addItem payload state) ! j = items state ! j" if "j \<noteq> i" for j
      using that by (simp add: addItem_merge[OF found])
  qed (simp_all add: addItem_merge[OF found] i(1))
qed

theorem addItem_existing_line_changes_only_quantity_witness:
  "(\<exists>item\<in>set (items mixed_cart). cartItemId item = payload_key add_cake_again)
   \<and> (\<exists>i<length (items mixed_cart).
         cartItemId (items mixed_cart ! i) = payload_key add_cake_again
       \<and> items (addItem add_cake_again mixed_cart)
           = (items mixed_cart)[i := (items mixed_cart ! i)
                \<lparr> quantity := quantity (items mixed_cart ! i) + payload_qty add_cake_again \<rparr>]
       \<and> is_preorder (items (addItem add_cake_again mixed_cart) ! i)
           = is_preorder (items mixed_cart ! i))"
proof -
  have h: "\<exists>item\<in>set (items mixed_cart). cartItemId item = payload_key add_cake_again"
    by code_simp
  from addItem_existing_line_changes_only_quantity [OF h] h show ?thesis
    by blast
qed

text \<open>
  C10. Every cart operation keeps the property that the stored key of each line is
  \<open>buildCartItemId\<close> of the line's product id and stored message, the empty cart has
  the property, and the migration of a version 0 snapshot produces a cart that has it.
  In a cart with the property, the lines a key addresses are the lines whose recomputed
  identity is that key.
\<close>

theorem cart_operations_keep_keys_consistent:
  "(keys_consistent state \<longrightarrow> keys_consistent (apply_op op state))
   \<and> keys_consistent initial_state
   \<and> keys_consistent (migrate (Version0 old_items))
   \<and> (keys_consistent state \<longrightarrow> lines_with_key k state = lines_with_identity k state)"
  using apply_op_keys_consistent initial_keys_consistent migrate_keys_consistent
    identity_is_key(2) [symmetric]
  by blast

theorem cart_operations_keep_keys_consistent_witness:
  "keys_consistent mixed_cart
   \<and> keys_consistent (apply_op (AddItem add_cake_again) mixed_cart)
   \<and> keys_consistent (migrate (Version0 [legacy_cake_line]))"
proof -
  have h: "keys_consistent mixed_cart" by code_simp
  from cart_operations_keep_keys_consistent
         [of mixed_cart "AddItem add_cake_again" "[legacy_cake_line]" "''abc-123::happy birthday''"] h
  show ?thesis by blast
qed


section \<open>Properties of the rounding to doubles\<close>

lemma pow2_pos: "0 < (2::rat) powi n"
  by simp

lemma pow2_add: "(2::rat) powi (m + n) = 2 powi m * 2 powi n"
  by (simp add: power_int_add)

lemma pow2_mono: "m \<le> n \<Longrightarrow> (2::rat) powi m \<le> 2 powi n"
  by (simp add: power_int_increasing)

lemma pow2_strict_mono: "m < n \<Longrightarrow> (2::rat) powi m < 2 powi n"
  by (simp add: power_int_strict_increasing)

lemma pow2_nat: "0 \<le> n \<Longrightarrow> (2::rat) powi n = 2 ^ nat n"
  by (simp add: power_int_def)

lemma ilog2_bounds:
  assumes "0 < x"
  shows "2 powi (ilog2 x) \<le> x \<and> x < 2 powi (ilog2 x + 1)"
proof -
  obtain p q where pq: "quotient_of x = (p, q)"
    by (cases "quotient_of x")
  then have q: "0 < q" and x: "x = of_int p / of_int q"
    by (simp_all add: quotient_of_denom_pos quotient_of_div)
  with assms have p: "0 < p"
    by (simp add: zero_less_divide_iff)
  define bp where "bp = bitlen p"
  define bq where "bq = bitlen q"
  define d where "d = bp - bq"
  from bitlen_bounds[OF p] have p1: "2 ^ nat (bp - 1) \<le> p" and p2: "p < 2 ^ nat bp"
    by (simp_all add: bp_def)
  from bitlen_bounds[OF q] have q1: "2 ^ nat (bq - 1) \<le> q" and q2: "q < 2 ^ nat bq"
    by (simp_all add: bq_def)
  have bp: "1 \<le> bp" using p by (simp add: bp_def bitlen_alt_def)
  have bq: "1 \<le> bq" using q by (simp add: bq_def bitlen_alt_def)
  have P1: "(2::rat) powi (bp - 1) \<le> of_int p"
  proof -
    have "(of_int (2 ^ nat (bp - 1)) :: rat) \<le> of_int p"
      using p1 by (simp only: of_int_le_iff)
    then show ?thesis using bp by (simp add: pow2_nat)
  qed
  have P2: "of_int p < (2::rat) powi bp"
  proof -
    have "(of_int p :: rat) < of_int (2 ^ nat bp)"
      using p2 by (simp only: of_int_less_iff)
    then show ?thesis using bp by (simp add: pow2_nat)
  qed
  have Q1: "(2::rat) powi (bq - 1) \<le> of_int q"
  proof -
    have "(of_int (2 ^ nat (bq - 1)) :: rat) \<le> of_int q"
      using q1 by (simp only: of_int_le_iff)
    then show ?thesis using bq by (simp add: pow2_nat)
  qed
  have Q2: "of_int q < (2::rat) powi bq"
  proof -
    have "(of_int q :: rat) < of_int (2 ^ nat bq)"
      using q2 by (simp only: of_int_less_iff)
    then show ?thesis using bq by (simp add: pow2_nat)
  qed
  have qpos: "(0::rat) < of_int q" using q by simp
  have upper: "x < 2 powi (d + 1)"
  proof -
    have "of_int p < (2::rat) powi (d + 1) * 2 powi (bq - 1)"
      using P2 by (simp add: d_def flip: pow2_add)
    also have "\<dots> \<le> 2 powi (d + 1) * of_int q"
      using Q1 by (intro mult_left_mono) simp_all
    finally show ?thesis
      using qpos by (simp add: x pos_divide_less_eq)
  qed
  have lower: "2 powi (d - 1) < x"
  proof -
    have "(2::rat) powi (d - 1) * of_int q < 2 powi (d - 1) * 2 powi bq"
      using Q2 by (intro mult_strict_left_mono) simp_all
    also have "\<dots> = 2 powi (bp - 1)"
      by (simp add: d_def flip: pow2_add)
    also have "\<dots> \<le> of_int p" by (rule P1)
    finally show ?thesis
      using qpos by (simp add: x pos_less_divide_eq)
  qed
  have il: "ilog2 x = (if 2 powi d \<le> x then d else d - 1)"
    by (simp add: ilog2_def pq d_def bp_def bq_def)
  show ?thesis
  proof (cases "2 powi d \<le> x")
    case True
    with il upper show ?thesis by simp
  next
    case False
    with il lower show ?thesis by simp
  qed
qed

lemma ilog2_less:
  assumes "0 < x" "x < 2 powi k"
  shows "ilog2 x < k"
proof (rule ccontr)
  assume "\<not> ilog2 x < k"
  then have "(2::rat) powi k \<le> 2 powi (ilog2 x)"
    by (intro pow2_mono) simp
  with ilog2_bounds[OF assms(1)] assms(2) show False
    by simp
qed

lemma ilog2_ge:
  assumes "0 < x" "2 powi k \<le> x"
  shows "k \<le> ilog2 x"
proof (rule ccontr)
  assume "\<not> k \<le> ilog2 x"
  then have "(2::rat) powi (ilog2 x + 1) \<le> 2 powi k"
    by (intro pow2_mono) simp
  with ilog2_bounds[OF assms(1)] assms(2) show False
    by simp
qed

lemma ilog2_pow2: "ilog2 (2 powi k) = k"
proof -
  have "ilog2 (2 powi k) < k + 1"
    by (rule ilog2_less) (simp_all add: pow2_strict_mono)
  moreover have "k \<le> ilog2 (2 powi k)"
    by (rule ilog2_ge) simp_all
  ultimately show ?thesis by simp
qed

lemma rne_of_int: "rne (of_int k) = k"
  by (simp add: rne_def)

lemma rne_nonneg: "0 \<le> x \<Longrightarrow> 0 \<le> rne x"
  by (auto simp: rne_def Let_def)

lemma rne_le:
  assumes "x \<le> of_int k"
  shows "rne x \<le> k"
proof (cases "\<lfloor>x\<rfloor> < k")
  case True
  then show ?thesis
    by (auto simp: rne_def Let_def)
next
  case False
  with assms have "\<lfloor>x\<rfloor> = k"
    by (simp add: floor_le_iff order.antisym not_less le_floor_iff)
  with assms have "x = of_int k"
    by (metis of_int_floor_le order.antisym)
  then show ?thesis
    by (simp add: rne_of_int)
qed

text \<open>What \<open>round64\<close> returns is left as it is by \<open>round64\<close>.\<close>

lemma round64_idempotent:
  assumes "round64 r = Fin v"
  shows "round64 v = Fin v"
proof (cases "r = 0")
  case True
  with assms show ?thesis by (simp add: round64_def)
next
  case False
  define a where "a = \<bar>r\<bar>"
  define e where "e = max (ilog2 a) (- 1022)"
  define q where "q = (2::rat) powi (e - 52)"
  define n where "n = rne (a / q)"
  define w where "w = of_int n * q"
  have a: "0 < a" using False by (simp add: a_def)
  have q: "0 < q" by (simp add: q_def)
  have n0: "0 \<le> n" using a q by (simp add: n_def rne_nonneg)
  from assms False have small: "\<not> double_overflow \<le> w" and v: "v = (if r < 0 then - w else w)"
    by (auto simp: round64_def Let_def a_def e_def q_def n_def w_def split: if_splits)
  have w0: "0 \<le> w" using n0 q by (simp add: w_def)
  show ?thesis
  proof (cases "n = 0")
    case True
    with v show ?thesis by (simp add: w_def round64_def)
  next
    case n: False
    with n0 have npos: "0 < n" by simp
    then have wpos: "0 < w" using q by (simp add: w_def)
    have vabs: "\<bar>v\<bar> = w" and vneg: "v < 0 \<longleftrightarrow> r < 0" and v0: "v \<noteq> 0"
      using wpos v by auto
    have split53: "53 + (e - 52) = e + 1" by simp
    have top: "(2::rat) powi (e + 1) = 2 powi 53 * q"
      unfolding q_def using pow2_add[of 53 "e - 52"] by (simp only: split53)
    have k53: "(of_int (2 ^ 53) :: rat) = 2 powi 53" by simp
    have k52: "(of_int (2 ^ 52) :: rat) = 2 powi 52" by simp
    have "a < 2 powi (ilog2 a + 1)"
      using ilog2_bounds[OF a] by simp
    also have "\<dots> \<le> 2 powi (e + 1)"
      by (intro pow2_mono) (simp add: e_def)
    also have "\<dots> = 2 powi 53 * q"
      by (rule top)
    finally have "a / q < 2 powi 53"
      using q by (simp only: pos_divide_less_eq)
    then have "a / q \<le> of_int (2 ^ 53)"
      by (simp only: k53 less_imp_le)
    then have nle: "n \<le> 2 ^ 53"
      unfolding n_def by (rule rne_le)
    have wle: "w \<le> 2 powi (e + 1)"
    proof -
      have "(of_int n :: rat) \<le> of_int (2 ^ 53)"
        using nle by (simp only: of_int_le_iff)
      then have "w \<le> of_int (2 ^ 53) * q"
        unfolding w_def using q by (intro mult_right_mono) simp_all
      then show ?thesis
        by (simp only: k53 top)
    qed
    define e' where "e' = max (ilog2 w) (- 1022)"
    define q' where "q' = (2::rat) powi (e' - 52)"
    have q': "0 < q'" by (simp add: q'_def)
    then have q'0: "q' \<noteq> 0" by simp
    have cancel: "x * q' / q' = x" for x
      using q'0 by simp
    have fixed: "of_int (rne (w / q')) * q' = w"
    proof (cases "w = 2 powi (e + 1)")
      case True
      then have "ilog2 w = e + 1" by (simp only: ilog2_pow2)
      then have e'1: "e' = e + 1" by (simp add: e'_def e_def)
      have "52 + (e' - 52) = e + 1" using e'1 by simp
      with pow2_add[of 52 "e' - 52"] have wq: "w = 2 powi 52 * q'"
        unfolding q'_def True by (simp only:)
      then have "w / q' = 2 powi 52"
        by (simp only: cancel)
      then have "w / q' = of_int (2 ^ 52)" by (simp only: k52)
      then have "rne (w / q') = 2 ^ 52"
        by (simp only: rne_of_int)
      then show ?thesis by (simp only: k52 wq)
    next
      case False
      with wle have "w < 2 powi (e + 1)" by simp
      from ilog2_less[OF wpos this] have "e' \<le> e"
        by (simp add: e'_def e_def)
      then have "(2::rat) powi (e - e') = of_int (2 ^ nat (e - e'))"
        by (simp add: pow2_nat)
      moreover have "(e - e') + (e' - 52) = e - 52" by simp
      ultimately have qq: "q = of_int (2 ^ nat (e - e')) * q'"
        unfolding q_def q'_def using pow2_add[of "e - e'" "e' - 52"] by (simp only:)
      have "w = of_int (n * 2 ^ nat (e - e')) * q'"
        unfolding w_def by (subst qq) (simp only: of_int_mult mult.assoc)
      then have wq: "w / q' = of_int (n * 2 ^ nat (e - e'))"
        by (simp only: cancel)
      then have "rne (w / q') = n * 2 ^ nat (e - e')"
        by (simp only: rne_of_int)
      then have "of_int (rne (w / q')) * q' = of_int (n * 2 ^ nat (e - e')) * q'"
        by (simp only:)
      also have "\<dots> = w"
        using \<open>w = of_int (n * 2 ^ nat (e - e')) * q'\<close> by (rule sym)
      finally show ?thesis .
    qed
    from v0 vabs vneg fixed small v show ?thesis
      by (simp add: round64_def Let_def e'_def q'_def)
  qed
qed


text \<open>The overflow threshold as a numeral, for evaluation.\<close>

lemma double_overflow_code [code]:
  "double_overflow = 179769313486231590772930519078902473361797697894230657273430081157732675805500963132708477322407536021120113879871393357658789768814416622492847430639474124377767893424865485276302219601246094119453082952085005768838150682342462881473913110540827237163350510684586298239947245938479716304835356329624224137216"
  by (simp add: double_overflow_def)

lemma round64_zero: "round64 0 = Fin 0"
  by (simp add: round64_def)

lemma round64_double: "is_double (round64 r)"
  by (cases "round64 r") (simp_all add: is_double_def round64_idempotent)

lemma inf_of_sign_double: "is_double (inf_of_sign s)"
  by (simp add: is_double_def inf_of_sign_def)


lemma f64_mul_double: "is_double (f64_mul x y)"
  by (cases x; cases y) (simp_all add: round64_double inf_of_sign_double, simp_all add: is_double_def)


lemma zero_double: "is_double (Fin 0)"
  by (simp add: is_double_def round64_zero)

section \<open>Properties of the subtotals\<close>



lemma line_amount_double: "is_double (line_amount price q)"
  by (simp add: line_amount_def zero_double f64_mul_double)











text \<open>
  Three evaluations: a line of one unit priced \<open>1.005\<close> has the subtotal 1 in the cart
  helper (the double nearest to 1.005 times 100 is below 100.5), a line priced \<open>0.004\<close>
  has the subtotal 0 there, and an item without a product makes the computation throw.
\<close>

lemma subtotal_examples:
  "calcSubtotalForItems [rounding_line] = Fin 1"
  "calcSubtotalForItems [sweet_line] = Fin 0"
  "raw_order_subtotal [item_without_product] = Inl TypeError"
  "raw_calcSubtotalForItems [item_without_product] = Inl TypeError"
  by code_simp+




section \<open>Properties of the order submission\<close>

lemma processOrder_missing_env:
  "\<not> env_configured srv \<Longrightarrow> processOrder srv fd db = Inl MissingSupabaseEnv"
  by (simp add: processOrder_def)

lemma processOrder_no_items:
  assumes "env_configured srv" "cart_has_no_items (fd_cart_items fd)"
  shows "processOrder srv fd db
         = Inr (Failure ''Your cart is empty. Please add items before checking out.'' None, db)"
  using assms unfolding cart_has_no_items_def processOrder_def Let_def
  by (elim disjE) simp_all

lemma upload_receipt_frame:
  assumes "upload_receipt srv pm rf db = Some (url, db1)"
  shows "orders db1 = orders db \<and> order_items db1 = order_items db \<and> settings db1 = settings db"
  using assms by (auto simp: upload_receipt_def Let_def split: option.splits if_splits)

lemma insert_order_result:
  assumes "insert_order srv payload db1 = Some (oid, db2)"
  shows "order_insert_id srv payload = Some oid
         \<and> orders db2 = orders db1 @ [stored_row payload oid]
         \<and> order_items db2 = order_items db1 \<and> settings db2 = settings db1"
  using assms by (auto simp: insert_order_def split: option.splits)

lemma insert_order_items_frame:
  "orders (insert_order_items srv ips db) = orders db
   \<and> settings (insert_order_items srv ips db) = settings db"
  by (simp add: insert_order_items_def)

lemma processOrder_success:
  assumes "processOrder srv fd db = Inr (Success oid, db')"
  shows "\<exists>its payload.
           env_configured srv
         \<and> fd_cart_items fd = ItemArray its \<and> its \<noteq> []
         \<and> order_insert_id srv payload = Some oid
         \<and> o_subtotal payload = toFixed2 (calc_subtotal its)
         \<and> o_base_delivery_fee payload = toFixed2 BASE_DELIVERY_FEE
         \<and> o_fragile_item_fee payload = toFixed2 (calc_fragileItemFee its)
         \<and> orders db' = orders db @ [stored_row payload oid]
         \<and> settings db' = settings db"
proof (cases "fd_cart_items fd")
  case Malformed
  with assms show ?thesis by (simp add: processOrder_def Let_def split: if_splits)
next
  case NotArray
  with assms show ?thesis by (simp add: processOrder_def Let_def split: if_splits)
next
  case (ItemArray its)
  show ?thesis
  proof (cases its)
    case Nil
    with assms ItemArray show ?thesis by (simp add: processOrder_def Let_def split: if_splits)
  next
    case (Cons first others)
    from assms have env: "env_configured srv"
      by (auto simp: processOrder_def split: if_splits)
    from assms ItemArray Cons env obtain url db1 payload db2 ips
      where up: "upload_receipt srv (sanitize (fd_payment_method fd)) (fd_payment_receipt fd) db
                 = Some (url, db1)"
        and ins: "insert_order srv payload db1 = Some (oid, db2)"
        and fees: "o_subtotal payload = toFixed2 (calc_subtotal its)"
                  "o_base_delivery_fee payload = toFixed2 BASE_DELIVERY_FEE"
                  "o_fragile_item_fee payload = toFixed2 (calc_fragileItemFee its)"
        and out: "db' = insert_order_items srv ips db2"
      unfolding processOrder_def Let_def
      by (simp split: if_splits option.splits prod.splits) fastforce+
    from upload_receipt_frame[OF up] insert_order_result[OF ins] out
    have "order_insert_id srv payload = Some oid"
         "orders db' = orders db @ [stored_row payload oid]"
         "settings db' = settings db"
      by (simp_all add: insert_order_items_frame)
    with env ItemArray Cons fees show ?thesis
      by blast
  qed
qed


lemma toFixed2_constants:
  "toFixed2 (Fin 150) = Fin 150" "toFixed2 (Fin 100) = Fin 100" "toFixed2 (Fin 0) = Fin 0"
  by code_simp+

lemma toFixed2_fees:
  "toFixed2 BASE_DELIVERY_FEE = Fin 150"
  "toFixed2 (calc_fragileItemFee its)
   = (if (\<exists>i\<in>set its. sp_is_fragile (s_product i)) then Fin 100 else Fin 0)"
  by (simp_all only: BASE_DELIVERY_FEE_def calc_fragileItemFee_def calc_hasFragile_def
      FRAGILE_ITEM_FEE_def list_ex_iff toFixed2_constants if_distrib[of toFixed2])

lemma toFixed2_whole:
  assumes "whole_cents r"
  shows "toFixed2 (Fin r) = Fin r"
proof -
  define n where "n = \<lfloor>r * 100\<rfloor>"
  from assms have n: "r * 100 = of_int n"
    unfolding whole_cents_def n_def by (rule sym)
  have up: "\<lfloor>(of_int n :: rat) + 1 / 2\<rfloor> = n"
    by linarith
  have down: "\<lfloor>- (of_int n :: rat) + 1 / 2\<rfloor> = - n"
    by linarith
  have r: "(of_int n :: rat) / 100 = r"
    using n by simp
  show ?thesis
  proof (cases "r < 0")
    case True
    have "- r * 100 = - (of_int n :: rat)"
      using n by simp
    then have "\<lfloor>- r * 100 + 1 / 2\<rfloor> = - n"
      by (simp only: down)
    moreover have "- ((of_int (- n) :: rat) / 100) = r"
      using r by simp
    ultimately have "Fin (- (of_int \<lfloor>- r * 100 + 1 / 2\<rfloor> / 100)) = Fin r"
      by (simp only:)
    with True show ?thesis
      by (simp only: toFixed2.simps if_True)
  next
    case False
    have "\<lfloor>r * 100 + 1 / 2\<rfloor> = n"
      by (simp only: n up)
    with r have "Fin (of_int \<lfloor>r * 100 + 1 / 2\<rfloor> / 100) = Fin r"
      by (simp only:)
    with False show ?thesis
      by (simp only: toFixed2.simps if_False)
  qed
qed

lemma example_submission:
  "\<exists>db'. processOrder example_server example_form_data example_database
           = Inr (Success ''order-1'', db')
         \<and> map o_base_delivery_fee (orders db') = [Fin 150]"
proof -
  have "case processOrder example_server example_form_data example_database of
          Inr (Success oid, db') \<Rightarrow>
            oid = ''order-1'' \<and> map o_base_delivery_fee (orders db') = [Fin 150]
        | _ \<Rightarrow> False"
    by code_simp
  then show ?thesis
    by (auto split: sum.splits prod.splits ProcessOrderResult.splits)
qed

text \<open>
  C1. The fragile fee of the fee calculation is the flat surcharge 100 when some item
  of the order is fragile, and 0 otherwise, however many items are fragile. When a
  submission of the (then non-empty) list of items succeeds, the order row it stores
  has the subtotal formatted to two decimals, the delivery fee 150, that fragile fee,
  and the total \<open>subtotal + base_delivery_fee + fragile_item_fee\<close> of the stored amounts.
  The formatting leaves a subtotal that is a whole number of cents as it is.
\<close>

theorem fragile_fee_is_flat_and_total_is_sum:
  "calc_fragileItemFee its
     = (if (\<exists>i\<in>set its. sp_is_fragile (s_product i)) then Fin 100 else Fin 0)
   \<and> (fd_cart_items fd = ItemArray its \<and> processOrder srv fd db = Inr (Success oid, db')
        \<longrightarrow> its \<noteq> []
          \<and> (\<exists>row. orders db' = orders db @ [row]
                \<and> o_id row = oid
                \<and> o_subtotal row = toFixed2 (calc_subtotal its)
                \<and> (\<forall>r. calc_subtotal its = Fin r \<and> whole_cents r \<longrightarrow> o_subtotal row = Fin r)
                \<and> o_base_delivery_fee row = Fin 150
                \<and> o_fragile_item_fee row
                    = (if (\<exists>i\<in>set its. sp_is_fragile (s_product i)) then Fin 100 else Fin 0)
                \<and> o_total_amount row
                    = js_add (js_add (o_subtotal row) (o_base_delivery_fee row))
                        (o_fragile_item_fee row)))"
proof (intro conjI impI)
  show "calc_fragileItemFee its
        = (if (\<exists>i\<in>set its. sp_is_fragile (s_product i)) then Fin 100 else Fin 0)"
    by (simp add: calc_fragileItemFee_def calc_hasFragile_def FRAGILE_ITEM_FEE_def list_ex_iff)
next
  assume h: "fd_cart_items fd = ItemArray its \<and> processOrder srv fd db = Inr (Success oid, db')"
  from processOrder_success[of srv fd db oid db'] h obtain payload
    where p: "its \<noteq> []"
             "o_subtotal payload = toFixed2 (calc_subtotal its)"
             "o_base_delivery_fee payload = toFixed2 BASE_DELIVERY_FEE"
             "o_fragile_item_fee payload = toFixed2 (calc_fragileItemFee its)"
             "orders db' = orders db @ [stored_row payload oid]"
    by auto
  from p(1) show "its \<noteq> []" .
  let ?row = "stored_row payload oid"
  have "\<forall>r. calc_subtotal its = Fin r \<and> whole_cents r \<longrightarrow> o_subtotal ?row = Fin r"
    using toFixed2_whole by (auto simp: stored_row_def p(2) simp del: toFixed2.simps)
  moreover
  have "o_id ?row = oid"
       "o_subtotal ?row = toFixed2 (calc_subtotal its)"
       "o_base_delivery_fee ?row = Fin 150"
       "o_fragile_item_fee ?row
          = (if (\<exists>i\<in>set its. sp_is_fragile (s_product i)) then Fin 100 else Fin 0)"
       "o_total_amount ?row
          = js_add (js_add (o_subtotal ?row) (o_base_delivery_fee ?row)) (o_fragile_item_fee ?row)"
    by (simp_all add: stored_row_def p(2,3,4) toFixed2_fees)
  ultimately show "\<exists>row. orders db' = orders db @ [row]
                \<and> o_id row = oid
                \<and> o_subtotal row = toFixed2 (calc_subtotal its)
                \<and> (\<forall>r. calc_subtotal its = Fin r \<and> whole_cents r \<longrightarrow> o_subtotal row = Fin r)
                \<and> o_base_delivery_fee row = Fin 150
                \<and> o_fragile_item_fee row
                    = (if (\<exists>i\<in>set its. sp_is_fragile (s_product i)) then Fin 100 else Fin 0)
                \<and> o_total_amount row
                    = js_add (js_add (o_subtotal row) (o_base_delivery_fee row))
                        (o_fragile_item_fee row)"
    using p(5) by blast
qed

theorem fragile_fee_is_flat_and_total_is_sum_witness:
  "fd_cart_items example_form_data = ItemArray example_order_items
   \<and> calc_fragileItemFee (example_order_items @ example_order_items) = Fin 100
   \<and> (\<exists>db' row. processOrder example_server example_form_data example_database
                    = Inr (Success ''order-1'', db')
                \<and> orders db' = orders example_database @ [row]
                \<and> o_subtotal row = Fin 150
                \<and> o_base_delivery_fee row = Fin 150
                \<and> o_fragile_item_fee row = Fin 100
                \<and> o_total_amount row = Fin 400)"
proof -
  have h1: "fd_cart_items example_form_data = ItemArray example_order_items"
    by (simp add: example_form_data_def)
  from example_submission obtain db'
    where h2: "processOrder example_server example_form_data example_database
               = Inr (Success ''order-1'', db')"
    by blast
  have fragile: "\<exists>i\<in>set example_order_items. sp_is_fragile (s_product i)"
    by code_simp
  then have fragile2:
    "\<exists>i\<in>set (example_order_items @ example_order_items). sp_is_fragile (s_product i)"
    by auto
  have sub: "toFixed2 (calc_subtotal example_order_items) = Fin 150"
    by code_simp
  from fragile_fee_is_flat_and_total_is_sum
         [of "example_order_items @ example_order_items" example_form_data example_server
             example_database "''order-1''" db'] fragile2
  have two: "calc_fragileItemFee (example_order_items @ example_order_items) = Fin 100"
    by (simp only: if_True)
  from fragile_fee_is_flat_and_total_is_sum
         [of example_order_items example_form_data example_server example_database
             "''order-1''" db'] h1 h2
  obtain row where row: "orders db' = orders example_database @ [row]"
      "o_subtotal row = toFixed2 (calc_subtotal example_order_items)"
      "o_base_delivery_fee row = Fin 150"
      "o_fragile_item_fee row
         = (if (\<exists>i\<in>set example_order_items. sp_is_fragile (s_product i)) then Fin 100 else Fin 0)"
      "o_total_amount row
         = js_add (js_add (o_subtotal row) (o_base_delivery_fee row)) (o_fragile_item_fee row)"
    by blast
  from row(4) fragile have fee: "o_fragile_item_fee row = Fin 100"
    by (simp only: if_True)
  from row(5) have "o_total_amount row = Fin 400"
    by (simp add: row(2,3) sub fee)
  with h1 h2 two row(1,2,3) sub fee show ?thesis
    by auto
qed

text \<open>
  C4. The code charges the constant \<open>BASE_DELIVERY_FEE\<close> and never reads the settings
  row: with a settings row whose delivery fee is 200, \<open>getSettings\<close> returns 200 and the
  order row stored by \<open>processOrder\<close> has the delivery fee 150.
\<close>

theorem processOrder_ignores_delivery_fee_setting:
  "getSettings example_server example_database = Inr (Fin 200, Fin 100)
   \<and> (\<exists>db'. processOrder example_server example_form_data example_database
               = Inr (Success ''order-1'', db')
            \<and> map o_base_delivery_fee (orders db') = [Fin 150])"
proof -
  have "getSettings example_server example_database = Inr (Fin 200, Fin 100)"
    by code_simp
  with example_submission show ?thesis
    by blast
qed

text \<open>
  C7. On a server whose environment is configured, a submission whose \<open>cart_items\<close>
  field does not parse, or parses to something that is not an array, or to the empty
  array, returns the failure ``Your cart is empty. Please add items before checking
  out.'' without field errors, and the database is unchanged: no receipt, order or
  order item is stored.
\<close>

theorem processOrder_rejects_empty_cart:
  assumes "env_configured srv" and "cart_has_no_items (fd_cart_items fd)"
  shows "processOrder srv fd db
         = Inr (Failure ''Your cart is empty. Please add items before checking out.'' None, db)"
  using assms by (rule processOrder_no_items)

theorem processOrder_rejects_empty_cart_witness:
  "env_configured example_server
   \<and> cart_has_no_items (fd_cart_items (example_form_data\<lparr> fd_cart_items := ItemArray [] \<rparr>))
   \<and> processOrder example_server (example_form_data\<lparr> fd_cart_items := ItemArray [] \<rparr>)
        example_database
       = Inr (Failure ''Your cart is empty. Please add items before checking out.'' None,
              example_database)"
proof -
  have h1: "env_configured example_server"
    by (simp add: example_server_def)
  have h2: "cart_has_no_items (fd_cart_items (example_form_data\<lparr> fd_cart_items := ItemArray [] \<rparr>))"
    by (simp add: cart_has_no_items_def)
  from processOrder_rejects_empty_cart [OF h1 h2, of example_database] h1 h2
  show ?thesis by blast
qed


section \<open>Properties of the delivery-time validation\<close>

lemma minute_of_day_hours_minutes:
  "getHours tz t * 60 + getMinutes tz t = minute_of_day tz t"
proof -
  define y where "y = (t + tz * 60000) div 60000"
  have "(t + tz * 60000) div 3600000 = y div 60"
    unfolding y_def using zdiv_zmult2_eq[where a = "t + tz * 60000" and b = 60000 and c = 60]
    by simp
  moreover have "y mod 1440 = 60 * (y div 60 mod 24) + y mod 60"
    using zmod_zmult2_eq[where a = y and b = 60 and c = 24] by simp
  ultimately show ?thesis
    by (simp add: getHours_def getMinutes_def minute_of_day_def y_def)
qed

lemma minute_of_day_time_of_day:
  "minute_of_day tz t = time_of_day_ms tz t div 60000"
proof -
  define x where "x = t + tz * 60000"
  have "x mod 86400000 = 60000 * (x div 60000 mod 1440) + x mod 60000"
    using zmod_zmult2_eq[where a = x and b = 60000 and c = 1440] by simp
  then have "(x mod 86400000) div 60000 = x div 60000 mod 1440"
    by simp
  then show ?thesis
    by (simp add: minute_of_day_def time_of_day_ms_def x_def)
qed

lemma validateDeliveryTime_minutes:
  "validateDeliveryTime dateParse tz isoString now \<noteq> None \<longleftrightarrow>
     (case dateParse isoString of
        None \<Rightarrow> True
      | Some requested \<Rightarrow>
          requested < now + 1800000
          \<or> minute_of_day tz requested < 600 \<or> 1380 < minute_of_day tz requested)"
  by (simp add: validateDeliveryTime_def Let_def minute_of_day_hours_minutes
      PREORDER_MIN_LEAD_MS_def openHour_def openMinute_def closeHour_def closeMinute_def
      split: option.splits)

text \<open>
  C6 as stated fails at the closing time: a delivery time of 23:00 local time, 35
  minutes from now, lies outside the half-open window from 10:00 to 23:00 and is
  accepted.
\<close>

theorem validateDeliveryTime_accepts_closing_time_counterexample:
  "example_date_parse ''2026-03-01T23:00:00+05:00'' = Some 1772388000000
   \<and> time_of_day_ms 300 1772388000000 = 23 * 3600000
   \<and> 1772385900000 + 35 * 60000 = (1772388000000 :: int)
   \<and> validateDeliveryTime example_date_parse 300 ''2026-03-01T23:00:00+05:00'' 1772385900000
       = None"
  by code_simp

text \<open>
  C6, amended. \<open>validateDeliveryTime\<close> returns an error exactly when the timestamp
  does not parse, or is earlier than now plus 30 minutes, or its local time of day,
  whatever the date, is before 10:00 or not before 23:01 (the minute 23:00 is still
  inside the window); otherwise it returns null.
\<close>

theorem validateDeliveryTime_rejects_iff:
  "validateDeliveryTime dateParse tz isoString now \<noteq> None \<longleftrightarrow>
     (case dateParse isoString of
        None \<Rightarrow> True
      | Some requested \<Rightarrow>
          requested < now + 30 * 60 * 1000
          \<or> time_of_day_ms tz requested < 10 * 3600000
          \<or> 23 * 3600000 + 60000 \<le> time_of_day_ms tz requested)"
proof -
  have "minute_of_day tz r < 600 \<longleftrightarrow> time_of_day_ms tz r < 10 * 3600000" for r
    unfolding minute_of_day_time_of_day by linarith
  moreover have "1380 < minute_of_day tz r \<longleftrightarrow> 23 * 3600000 + 60000 \<le> time_of_day_ms tz r" for r
    unfolding minute_of_day_time_of_day by linarith
  ultimately show ?thesis
    unfolding validateDeliveryTime_minutes by (simp split: option.splits)
qed

theorem validateDeliveryTime_rejects_iff_witness:
  "validateDeliveryTime example_date_parse 300 ''2026-03-01T14:00:00+05:00''
     (1772355600000 - 10 * 60000) \<noteq> None
   \<and> validateDeliveryTime example_date_parse 300 ''2026-03-01T02:00:00+05:00''
       (1772312400000 - 35 * 60000) \<noteq> None
   \<and> validateDeliveryTime example_date_parse 300 ''2026-03-01T14:00:00+05:00''
       (1772355600000 - 35 * 60000) = None
   \<and> validateDeliveryTime example_date_parse 300 ''not a date'' 1772353500000 \<noteq> None"
proof -
  have a: "case example_date_parse ''2026-03-01T14:00:00+05:00'' of
             None \<Rightarrow> True
           | Some requested \<Rightarrow>
               requested < (1772355600000 - 10 * 60000) + 30 * 60 * 1000
               \<or> time_of_day_ms 300 requested < 10 * 3600000
               \<or> 23 * 3600000 + 60000 \<le> time_of_day_ms 300 requested"
    by code_simp
  have b: "case example_date_parse ''2026-03-01T02:00:00+05:00'' of
             None \<Rightarrow> True
           | Some requested \<Rightarrow>
               requested < (1772312400000 - 35 * 60000) + 30 * 60 * 1000
               \<or> time_of_day_ms 300 requested < 10 * 3600000
               \<or> 23 * 3600000 + 60000 \<le> time_of_day_ms 300 requested"
    by code_simp
  have c: "\<not> (case example_date_parse ''2026-03-01T14:00:00+05:00'' of
             None \<Rightarrow> True
           | Some requested \<Rightarrow>
               requested < (1772355600000 - 35 * 60000) + 30 * 60 * 1000
               \<or> time_of_day_ms 300 requested < 10 * 3600000
               \<or> 23 * 3600000 + 60000 \<le> time_of_day_ms 300 requested)"
    by code_simp
  have d: "case example_date_parse ''not a date'' of
             None \<Rightarrow> True
           | Some requested \<Rightarrow>
               requested < 1772353500000 + 30 * 60 * 1000
               \<or> time_of_day_ms 300 requested < 10 * 3600000
               \<or> 23 * 3600000 + 60000 \<le> time_of_day_ms 300 requested"
    by code_simp
  from a have a': "validateDeliveryTime example_date_parse 300 ''2026-03-01T14:00:00+05:00''
                     (1772355600000 - 10 * 60000) \<noteq> None"
    by (simp only: validateDeliveryTime_rejects_iff)
  from b have b': "validateDeliveryTime example_date_parse 300 ''2026-03-01T02:00:00+05:00''
                     (1772312400000 - 35 * 60000) \<noteq> None"
    by (simp only: validateDeliveryTime_rejects_iff)
  from c have c': "validateDeliveryTime example_date_parse 300 ''2026-03-01T14:00:00+05:00''
                     (1772355600000 - 35 * 60000) = None"
    by (simp only: validateDeliveryTime_rejects_iff [symmetric] not_not)
  from d have d': "validateDeliveryTime example_date_parse 300 ''not a date'' 1772353500000 \<noteq> None"
    by (simp only: validateDeliveryTime_rejects_iff)
  from a' b' c' d' show ?thesis by (intro conjI)
qed

section \<open>Properties of the checkout page\<close>

lemma mixed_batches_nonempty:
  assumes "selectHasMixedAvailability state"
  shows "instantItems (splitCartIntoTwo (items state)) \<noteq> []"
    and "preorderItems (splitCartIntoTwo (items state)) \<noteq> []"
  using assms
  by (auto simp: selectHasMixedAvailability_def instantItems_filter preorderItems_filter
      list_ex_iff filter_empty_conv Let_def split: if_splits)

lemma handleSubmit_success:
  assumes "view page \<noteq> SplitNotice"
      and "\<not> (isPreorderBatch (view page) (cart page) \<and> deliveryTimeError (form page) \<noteq> [])"
      and "processOrder srv (build_form_data (formItems (view page) (cart page)) (form page)) db
           = Inr (Success oid, db')"
  shows "handleSubmit srv (page, db)
         = Inr (page\<lparr> cart := clearCart (cart page),
                     pushed_route := Some (''/order-confirmation?id='' @ oid) \<rparr>, db')"
  using assms by (auto simp: handleSubmit_def Let_def)

text \<open>
  C5. In the split checkout of a mixed cart, when the submission of the first batch
  (either one) succeeds, \<open>handleSubmit\<close> empties the whole cart: the items of the other
  batch, which is not empty and for which no order has been stored (exactly one order
  row is added), are no longer in the cart.
\<close>

theorem first_batch_success_clears_whole_cart:
  assumes "selectHasMixedAvailability (cart page)"
      and "view page = InstantForm \<or> view page = PreorderForm"
      and "\<not> (isPreorderBatch (view page) (cart page) \<and> deliveryTimeError (form page) \<noteq> [])"
      and "processOrder srv (build_form_data (formItems (view page) (cart page)) (form page)) db
           = Inr (Success oid, db')"
  shows "\<exists>page'. handleSubmit srv (page, db) = Inr (page', db')
           \<and> items (cart page') = []
           \<and> other_batch (view page) (cart page) \<noteq> []
           \<and> set (other_batch (view page) (cart page)) \<subseteq> set (items (cart page))
           \<and> set (other_batch (view page) (cart page)) \<inter> set (formItems (view page) (cart page)) = {}
           \<and> length (orders db') = length (orders db) + 1"
proof -
  let ?page' = "page\<lparr> cart := clearCart (cart page),
                      pushed_route := Some (''/order-confirmation?id='' @ oid) \<rparr>"
  from assms(2) have v: "view page \<noteq> SplitNotice" by auto
  have sub: "handleSubmit srv (page, db) = Inr (?page', db')"
    by (rule handleSubmit_success[OF v assms(3,4)])
  have empty: "items (cart ?page') = []"
    by (simp add: clearCart_def)
  from mixed_batches_nonempty[OF assms(1)] assms(2)
  have other: "other_batch (view page) (cart page) \<noteq> []"
    by (auto simp: other_batch_def)
  have inside: "set (other_batch (view page) (cart page)) \<subseteq> set (items (cart page))"
    by (auto simp: other_batch_def instantItems_filter preorderItems_filter)
  from assms(2)
  have apart: "set (other_batch (view page) (cart page))
               \<inter> set (formItems (view page) (cart page)) = {}"
    by (auto simp: other_batch_def formItems_def instantItems_filter preorderItems_filter)
  from processOrder_success[OF assms(4)]
  have "length (orders db') = length (orders db) + 1"
    by auto
  with sub empty other inside apart show ?thesis
    by blast
qed

theorem first_batch_success_clears_whole_cart_witness:
  "selectHasMixedAvailability (cart example_page)
   \<and> view example_page = InstantForm
   \<and> isPreorderBatch (view example_page) (cart example_page) = False
   \<and> map cartItemId (other_batch (view example_page) (cart example_page))
       = [''abc-123::happy birthday'']
   \<and> (\<exists>db' page'. processOrder example_server
                     (build_form_data (formItems (view example_page) (cart example_page))
                        (form example_page)) example_database
                    = Inr (Success ''order-1'', db')
        \<and> handleSubmit example_server (example_page, example_database) = Inr (page', db')
        \<and> items (cart page') = []
        \<and> length (orders db') = length (orders example_database) + 1)"
proof -
  have h1: "selectHasMixedAvailability (cart example_page)" by code_simp
  have h2: "view example_page = InstantForm" by (simp add: example_page_def)
  have h3: "isPreorderBatch (view example_page) (cart example_page) = False" by code_simp
  have o: "map cartItemId (other_batch (view example_page) (cart example_page))
           = [''abc-123::happy birthday'']" by code_simp
  have "case processOrder example_server
               (build_form_data (formItems (view example_page) (cart example_page))
                  (form example_page)) example_database of
          Inr (Success oid, db') \<Rightarrow> oid = ''order-1''
        | _ \<Rightarrow> False"
    by code_simp
  then obtain db' where h4: "processOrder example_server
               (build_form_data (formItems (view example_page) (cart example_page))
                  (form example_page)) example_database = Inr (Success ''order-1'', db')"
    by (auto split: sum.splits prod.splits ProcessOrderResult.splits)
  from h2 have h2': "view example_page = InstantForm \<or> view example_page = PreorderForm"
    by simp
  from h3 have h3': "\<not> (isPreorderBatch (view example_page) (cart example_page)
                         \<and> deliveryTimeError (form example_page) \<noteq> [])"
    by simp
  from first_batch_success_clears_whole_cart [OF h1 h2' h3' h4]
  obtain page' where "handleSubmit example_server (example_page, example_database) = Inr (page', db')"
      "items (cart page') = []"
      "length (orders db') = length (orders example_database) + 1"
    by blast
  with h1 h2 h3 o h4 show ?thesis
    by blast
qed

end
